theory Spec2Isabelle
  imports Main "HOL-Library.Mapping" "HOL-Library.AList_Mapping"
begin

section \<open>The intermediate representation walked by the inferrer\<close>

text \<open>
  The effect inferrer (\<^verbatim>\<open>quint/src/effects/inferrer.ts\<close>) is a visitor over the Quint IR.
  Only the fields that the visitor reads are kept: every node carries its identity
  (a \<^verbatim>\<open>bigint\<close>, here an \<open>int\<close>), a name reference its name, an application its
  operator name and its arguments, a lambda its parameters and its body, a let its
  definition and its body, a constant its type annotation. The definitions are the three
  kinds for which the inferrer has a callback: operator definitions, constants and
  variables.
\<close>

datatype QuintType = OperType "QuintType list" QuintType | OtherType

datatype QuintLambdaParameter = QuintLambdaParameter (paramId: int) (paramName: string)

datatype QuintEx =
    QuintName int string
  | QuintBool int bool
  | QuintInt int int
  | QuintStr int string
  | QuintApp int string "QuintEx list"
  | QuintLambda int "QuintLambdaParameter list" QuintEx
  | QuintLet int QuintOpDef QuintEx
and QuintOpDef = QuintOpDef int string QuintEx

datatype QuintDef =
    DefOp QuintOpDef
  | DefConst int string QuintType
  | DefVar int string

fun exId :: "QuintEx \<Rightarrow> int" where
  "exId (QuintName i n) = i"
| "exId (QuintBool i b) = i"
| "exId (QuintInt i v) = i"
| "exId (QuintStr i s) = i"
| "exId (QuintApp i opcode args) = i"
| "exId (QuintLambda i ps body) = i"
| "exId (QuintLet i opdef body) = i"

section \<open>Effects, schemes, substitutions and errors\<close>

text \<open>
  The shapes of the terms are the object literals that the inferrer builds: a concrete
  effect with its components, an effect variable, an arrow; a concrete entity with its
  state variables and an entity variable (the spec adds the union of entities and the
  component kinds \<^verbatim>\<open>update\<close> and \<^verbatim>\<open>temporal\<close>). A scheme is an effect with the names it
  quantifies; the sets of names are kept as lists in insertion order, the order in which
  \<^verbatim>\<open>newInstance\<close> draws fresh names for them.
\<close>

datatype StateVariable = StateVariable string int

datatype Entity =
    ConcreteEntity "StateVariable list"
  | VariableEntity string
  | UnionEntity "Entity list"

datatype ComponentKind = Read | Update | Temporal

datatype EffectComponent = EffectComponent ComponentKind Entity

datatype Effect =
    ConcreteEffect "EffectComponent list"
  | VariableEffect string
  | ArrowEffect "Effect list" Effect

record EffectScheme =
  effect :: Effect
  effectVariables :: "string list"
  entityVariables :: "string list"

datatype Substitution = EffectSubstitution string Effect | EntitySubstitution string Entity

type_synonym Substitutions = "Substitution list"

datatype ErrorTree = ErrorTree "string option" string "ErrorTree list"

text \<open>
  The left side of an \<^verbatim>\<open>Either\<close> that reaches \<^verbatim>\<open>addToResults\<close> is one error tree, or the
  array of error trees that \<^verbatim>\<open>mergeInMany\<close> collects.
\<close>

datatype Error = Single ErrorTree | Several "ErrorTree list"

text \<open>
  Exceptions are not part of the error trees: a \<^verbatim>\<open>throw\<close> ends the run. They are the
  values of \<open>Fault\<close>, and every function that can throw returns \<open>Fault + 'a\<close>.
  \<^item> \<open>NoResult i loc\<close>: \<^verbatim>\<open>fetchResult\<close> found the identity in neither map;
  \<^item> \<open>FreshNamesFailed t\<close>: \<^verbatim>\<open>newInstance\<close> could not apply its renaming;
  \<^item> \<open>UnboundThis\<close>: \<^verbatim>\<open>newInstance\<close> reached the fresh-name generator through an
    undefined \<^verbatim>\<open>this\<close>;
  \<^item> \<open>NotAnArrow e\<close>: the effect of a lambda is not an arrow after substitution;
  \<^item> \<open>WrongEffectCount n m\<close>: an argument identity or effect is falsy when the
    arguments are re-published.
\<close>

datatype Fault =
    NoResult int string
  | FreshNamesFailed ErrorTree
  | UnboundThis
  | NotAnArrow Effect
  | WrongEffectCount nat nat

datatype LookupDefinition = LookupDefinition (reference: "int option")

section \<open>What the inferrer imports\<close>

text \<open>
  The inferrer calls into other modules of the compiler: the unifier, \<^verbatim>\<open>toScheme\<close> and
  \<^verbatim>\<open>effectNames\<close> of \<^verbatim>\<open>effects/base\<close>, the substitutions, the builtin signatures, the error
  trees and the IR printer. The walker is verified for every behaviour of theirs: they are
  the fields of an environment, together with the lookup table given to the constructor.
\<close>

record Env =
  lookupTable :: "int \<rightharpoonup> LookupDefinition"
  builtinSignatures :: "string \<rightharpoonup> (nat \<Rightarrow> EffectScheme)"
  standardPropagation :: "nat \<Rightarrow> EffectScheme"
  toScheme :: "Effect \<Rightarrow> EffectScheme"
  effectNames :: "Effect \<Rightarrow> string list \<times> string list"
  unify :: "Effect \<Rightarrow> Effect \<Rightarrow> ErrorTree + Substitutions"
  compose :: "Substitutions \<Rightarrow> Substitutions \<Rightarrow> ErrorTree + Substitutions"
  applySubstitution :: "Substitutions \<Rightarrow> Effect \<Rightarrow> ErrorTree + Effect"
  buildErrorTree :: "string \<Rightarrow> Error \<Rightarrow> ErrorTree"
  buildErrorLeaf :: "string \<Rightarrow> string \<Rightarrow> ErrorTree"
  expressionToString :: "QuintEx \<Rightarrow> string"

section \<open>The state of an inferrer\<close>

text \<open>
  The two result maps are finite maps from identities: \<^verbatim>\<open>get\<close> is \<open>Mapping.lookup\<close>,
  \<^verbatim>\<open>set\<close> is \<open>Mapping.update\<close>, and \<^verbatim>\<open>size > 0\<close> is the negation of \<open>Mapping.is_empty\<close>.
\<close>

record Inferrer =
  effects :: "(int, EffectScheme) mapping"
  errors :: "(int, ErrorTree) mapping"
  substitutions :: Substitutions
  location :: string
  freshVarCounter :: nat

text \<open>The constructor: the effects map may be given, everything else starts empty.\<close>

definition EffectInferrer :: "(int, EffectScheme) mapping \<Rightarrow> Inferrer" where
  "EffectInferrer effs =
     \<lparr>effects = effs, errors = Mapping.empty, substitutions = [], location = [],
      freshVarCounter = 0\<rparr>"

text \<open>Decimal rendering of a number inside a template string.\<close>

fun digitsOf :: "nat \<Rightarrow> string" where
  "digitsOf n =
     (if n < 10 then [char_of (48 + n)]
      else digitsOf (n div 10) @ [char_of (48 + n mod 10)])"

definition bigintToString :: "int \<Rightarrow> string" where
  "bigintToString i = (if i < 0 then CHR ''-'' # digitsOf (nat (- i)) else digitsOf (nat i))"

text \<open>
  Modelled from the spec: \<^verbatim>\<open>FreshVarGenerator\<close> (its source is not at hand) is "a
  monotonically increasing counter for fresh variable names, scoped to one inference run";
  the prefix keeps the names of effect variables and of entity variables apart.
\<close>

definition freshVar :: "string \<Rightarrow> Inferrer \<Rightarrow> string \<times> Inferrer" where
  "freshVar prefix st =
     (prefix @ digitsOf (freshVarCounter st), st\<lparr>freshVarCounter := Suc (freshVarCounter st)\<rparr>)"

text \<open>
  \<^verbatim>\<open>mergeInMany\<close> of the library \<^verbatim>\<open>@sweet-monads/either\<close>: the right values when every
  element is a right, otherwise all the left values.
\<close>

fun lefts :: "('e + 'a) list \<Rightarrow> 'e list" where
  "lefts [] = []"
| "lefts (Inl e # rs) = e # lefts rs"
| "lefts (Inr a # rs) = lefts rs"

fun rights :: "('e + 'a) list \<Rightarrow> 'a list" where
  "rights [] = []"
| "rights (Inl e # rs) = rights rs"
| "rights (Inr a # rs) = a # rights rs"

definition mergeInMany :: "('e + 'a) list \<Rightarrow> 'e list + 'a list" where
  "mergeInMany rs = (if lefts rs = [] then Inr (rights rs) else Inl (lefts rs))"

section \<open>The private methods\<close>

definition addToResults :: "Env \<Rightarrow> int \<Rightarrow> Error + EffectScheme \<Rightarrow> Inferrer \<Rightarrow> Inferrer" where
  "addToResults d exprId result st =
     (case result of
        Inl err \<Rightarrow>
          st\<lparr>errors := Mapping.update exprId (buildErrorTree d (location st) err) (errors st)\<rparr>
      | Inr r \<Rightarrow> st\<lparr>effects := Mapping.update exprId r (effects st)\<rparr>)"

definition fetchResult :: "Inferrer \<Rightarrow> int \<Rightarrow> Fault + (ErrorTree + EffectScheme)" where
  "fetchResult st i =
     (case Mapping.lookup (errors st) i of
        Some failedResult \<Rightarrow> Inr (Inl failedResult)
      | None \<Rightarrow>
          (case Mapping.lookup (effects st) i of
             Some successfulResult \<Rightarrow> Inr (Inr successfulResult)
           | None \<Rightarrow> Inl (NoResult i (location st))))"

fun freshEffectSubs :: "string list \<Rightarrow> Inferrer \<Rightarrow> Substitutions \<times> Inferrer" where
  "freshEffectSubs [] st = ([], st)"
| "freshEffectSubs (n # ns) st =
     (let (v, st1) = freshVar ''e'' st;
          (subs, st2) = freshEffectSubs ns st1
      in (EffectSubstitution n (VariableEffect v) # subs, st2))"

fun freshEntitySubs :: "string list \<Rightarrow> Inferrer \<Rightarrow> Substitutions \<times> Inferrer" where
  "freshEntitySubs [] st = ([], st)"
| "freshEntitySubs (n # ns) st =
     (let (v, st1) = freshVar ''v'' st;
          (subs, st2) = freshEntitySubs ns st1
      in (EntitySubstitution n (VariableEntity v) # subs, st2))"

definition newInstance :: "Env \<Rightarrow> EffectScheme \<Rightarrow> Inferrer \<Rightarrow> Fault + (Effect \<times> Inferrer)" where
  "newInstance d sch st =
     (let (effectSubs, st1) = freshEffectSubs (effectVariables sch) st;
          (entitySubs, st2) = freshEntitySubs (entityVariables sch) st1
      in case compose d effectSubs entitySubs of
           Inl err \<Rightarrow> Inl (FreshNamesFailed err)
         | Inr s \<Rightarrow>
             (case applySubstitution d s (effect sch) of
                Inl err \<Rightarrow> Inl (FreshNamesFailed err)
              | Inr e \<Rightarrow> Inr (e, st2)))"

text \<open>
  In \<^verbatim>\<open>exitLambda\<close> the method is passed as a bare function value,
  \<^verbatim>\<open>.map(this.newInstance)\<close>, so inside it \<^verbatim>\<open>this\<close> is undefined. The two callbacks that
  read \<^verbatim>\<open>this.freshVarGenerator\<close> only run when the scheme quantifies a name: then the call
  throws, otherwise it composes two empty substitutions as usual and draws no name.
\<close>

definition newInstanceUnbound :: "Env \<Rightarrow> EffectScheme \<Rightarrow> Fault + Effect" where
  "newInstanceUnbound d sch =
     (if effectVariables sch = [] \<and> entityVariables sch = [] then
        (case compose d [] [] of
           Inl err \<Rightarrow> Inl (FreshNamesFailed err)
         | Inr s \<Rightarrow>
             (case applySubstitution d s (effect sch) of
                Inl err \<Rightarrow> Inl (FreshNamesFailed err)
              | Inr e \<Rightarrow> Inr e))
      else Inl UnboundThis)"

definition signatureNotFound :: "Env \<Rightarrow> string \<Rightarrow> Inferrer \<Rightarrow> ErrorTree" where
  "signatureNotFound d name st =
     buildErrorLeaf d (location st) (''Signature not found for name: '' @ name)"

definition effectForName ::
  "Env \<Rightarrow> string \<Rightarrow> int \<Rightarrow> nat \<Rightarrow> Inferrer \<Rightarrow> Fault + ((ErrorTree + Effect) \<times> Inferrer)" where
  "effectForName d name nameId arity st =
     (case builtinSignatures d name of
        Some signatureFunction \<Rightarrow>
          (case newInstance d (signatureFunction arity) st of
             Inl f \<Rightarrow> Inl f
           | Inr (e, st1) \<Rightarrow> Inr (Inr e, st1))
      | None \<Rightarrow>
          (case lookupTable d nameId of
             None \<Rightarrow> Inr (Inl (signatureNotFound d name st), st)
           | Some def \<Rightarrow>
               (case reference def of
                  None \<Rightarrow> Inr (Inl (signatureNotFound d name st), st)
                | Some i \<Rightarrow>
                    if i = 0 then Inr (Inl (signatureNotFound d name st), st)
                    else
                      (case fetchResult st i of
                         Inl f \<Rightarrow> Inl f
                       | Inr (Inl t) \<Rightarrow> Inr (Inl t, st)
                       | Inr (Inr sch) \<Rightarrow>
                           (case newInstance d sch st of
                              Inl f \<Rightarrow> Inl f
                            | Inr (e, st1) \<Rightarrow> Inr (Inr e, st1))))))"

section \<open>The visitor callbacks\<close>

definition enterExpr :: "Env \<Rightarrow> QuintEx \<Rightarrow> Inferrer \<Rightarrow> Inferrer" where
  "enterExpr d e st = st\<lparr>location := ''Inferring effect for '' @ expressionToString d e\<rparr>"

definition pureEffect :: Effect where
  "pureEffect = ConcreteEffect []"

definition exitConst :: "Env \<Rightarrow> int \<Rightarrow> QuintType \<Rightarrow> Inferrer \<Rightarrow> Inferrer" where
  "exitConst d i typeAnnotation st =
     (case typeAnnotation of
        OperType args res \<Rightarrow> addToResults d i (Inr (standardPropagation d (length args))) st
      | OtherType \<Rightarrow> addToResults d i (Inr (toScheme d pureEffect)) st)"

definition readEffect :: "string \<Rightarrow> int \<Rightarrow> Effect" where
  "readEffect name i =
     ConcreteEffect [EffectComponent Read (ConcreteEntity [StateVariable name i])]"

definition exitVar :: "Env \<Rightarrow> int \<Rightarrow> string \<Rightarrow> Inferrer \<Rightarrow> Inferrer" where
  "exitVar d i name st = addToResults d i (Inr (toScheme d (readEffect name i))) st"

definition schemeResult :: "Env \<Rightarrow> ErrorTree + Effect \<Rightarrow> Error + EffectScheme" where
  "schemeResult d r = (case r of Inl t \<Rightarrow> Inl (Single t) | Inr e \<Rightarrow> Inr (toScheme d e))"

definition exitName :: "Env \<Rightarrow> int \<Rightarrow> string \<Rightarrow> Inferrer \<Rightarrow> Fault + Inferrer" where
  "exitName d i name st =
     (if \<not> Mapping.is_empty (errors st) then Inr st
      else
        (case effectForName d name i 2 st of
           Inl f \<Rightarrow> Inl f
         | Inr (r, st1) \<Rightarrow> Inr (addToResults d i (schemeResult d r) st1)))"

text \<open>
  The arguments of an application: each result is fetched and instantiated in turn
  (\<^verbatim>\<open>paramsResult\<close> before \<^verbatim>\<open>mergeInMany\<close>).
\<close>

fun instantiateResults ::
  "Env \<Rightarrow> int list \<Rightarrow> Inferrer \<Rightarrow> Fault + ((ErrorTree + Effect) list \<times> Inferrer)" where
  "instantiateResults d [] st = Inr ([], st)"
| "instantiateResults d (i # ids) st =
     (case fetchResult st i of
        Inl f \<Rightarrow> Inl f
      | Inr (Inl t) \<Rightarrow>
          (case instantiateResults d ids st of
             Inl f \<Rightarrow> Inl f
           | Inr (rs, st2) \<Rightarrow> Inr (Inl t # rs, st2))
      | Inr (Inr sch) \<Rightarrow>
          (case newInstance d sch st of
             Inl f \<Rightarrow> Inl f
           | Inr (e, st1) \<Rightarrow>
               (case instantiateResults d ids st1 of
                  Inl f \<Rightarrow> Inl f
                | Inr (rs, st2) \<Rightarrow> Inr (Inr e # rs, st2))))"

text \<open>
  The arguments are re-published under the new substitution. The two lists zipped here
  have the length of the argument list; an identity \<^verbatim>\<open>0n\<close> is falsy and takes the
  \<^verbatim>\<open>throw\<close> of the loop.
\<close>

fun republish ::
  "Env \<Rightarrow> Substitutions \<Rightarrow> nat \<Rightarrow> (Effect \<times> int) list \<Rightarrow> Inferrer \<Rightarrow> Fault + Inferrer" where
  "republish d s n [] st = Inr st"
| "republish d s n ((e, i) # rest) st =
     (if i = 0 then Inl (WrongEffectCount n n)
      else republish d s n rest (addToResults d i (schemeResult d (applySubstitution d s e)) st))"

text \<open>
  The body of the \<^verbatim>\<open>chain\<close> over the signature: unify, compose with the running
  substitution, store it, re-publish the arguments, and resolve the result variable.
\<close>

definition applySignature ::
  "Env \<Rightarrow> Effect \<Rightarrow> ErrorTree list + Effect list \<Rightarrow> Effect \<Rightarrow> int list \<Rightarrow> Inferrer
     \<Rightarrow> Fault + ((Error + Effect) \<times> Inferrer)" where
  "applySignature d signature paramsResult resultEffect argIds st =
     (let arrowEffect =
            (case paramsResult of
               Inl ts \<Rightarrow> Inl (Several ts)
             | Inr params \<Rightarrow> Inr (ArrowEffect params resultEffect));
          substitution =
            (case arrowEffect of
               Inl err \<Rightarrow> Inl err
             | Inr e \<Rightarrow>
                 (case unify d signature e of Inl t \<Rightarrow> Inl (Single t) | Inr s \<Rightarrow> Inr s))
      in case substitution of
           Inl err \<Rightarrow> Inr (Inl err, st)
         | Inr s0 \<Rightarrow>
             (case compose d (substitutions st) s0 of
                Inl t \<Rightarrow> Inr (Inl (Single t), st)
              | Inr s \<Rightarrow>
                  (case (case paramsResult of
                           Inl ts \<Rightarrow> Inr (st\<lparr>substitutions := s\<rparr>)
                         | Inr es \<Rightarrow>
                             republish d s (length argIds) (zip es argIds)
                               (st\<lparr>substitutions := s\<rparr>)) of
                     Inl f \<Rightarrow> Inl f
                   | Inr st2 \<Rightarrow>
                       (case applySubstitution d s resultEffect of
                          Inl t \<Rightarrow> Inr (Inl (Single t), st2)
                        | Inr e \<Rightarrow> Inr (Inr e, st2)))))"

definition appLocation :: "Env \<Rightarrow> int \<Rightarrow> string \<Rightarrow> QuintEx list \<Rightarrow> string" where
  "appLocation d i opcode args =
     ''Trying to infer effect for operator application in ''
       @ expressionToString d (QuintApp i opcode args)"

definition exitApp :: "Env \<Rightarrow> int \<Rightarrow> string \<Rightarrow> QuintEx list \<Rightarrow> Inferrer \<Rightarrow> Fault + Inferrer" where
  "exitApp d i opcode args st =
     (if \<not> Mapping.is_empty (errors st) then Inr st
      else
        (case instantiateResults d (map exId args)
                (st\<lparr>location := appLocation d i opcode args\<rparr>) of
           Inl f \<Rightarrow> Inl f
         | Inr (rs, st1) \<Rightarrow>
             (let (v, st2) = freshVar ''e'' st1
              in case effectForName d opcode i (length args) st2 of
                   Inl f \<Rightarrow> Inl f
                 | Inr (Inl err, st3) \<Rightarrow>
                     Inr (addToResults d i
                            (Inl (Single (buildErrorTree d (location st3) (Single err)))) st3)
                 | Inr (Inr signature, st3) \<Rightarrow>
                     (case applySignature d signature (mergeInMany rs) (VariableEffect v)
                             (map exId args) st3 of
                        Inl f \<Rightarrow> Inl f
                      | Inr (Inl err, st4) \<Rightarrow> Inr (addToResults d i (Inl err) st4)
                      | Inr (Inr e, st4) \<Rightarrow> Inr (addToResults d i (Inr (toScheme d e)) st4)))))"

definition exitLiteral :: "Env \<Rightarrow> int \<Rightarrow> Inferrer \<Rightarrow> Inferrer" where
  "exitLiteral d i st = addToResults d i (Inr (toScheme d (ConcreteEffect []))) st"

definition forwardResult :: "ErrorTree + EffectScheme \<Rightarrow> Error + EffectScheme" where
  "forwardResult r = (case r of Inl t \<Rightarrow> Inl (Single t) | Inr sch \<Rightarrow> Inr sch)"

definition exitOpDef :: "Env \<Rightarrow> int \<Rightarrow> QuintEx \<Rightarrow> Inferrer \<Rightarrow> Fault + Inferrer" where
  "exitOpDef d i body st =
     (if \<not> Mapping.is_empty (errors st) then Inr st
      else
        (case fetchResult st (exId body) of
           Inl f \<Rightarrow> Inl f
         | Inr result \<Rightarrow> Inr (addToResults d i (forwardResult result) st)))"

definition exitLet :: "Env \<Rightarrow> int \<Rightarrow> QuintEx \<Rightarrow> Inferrer \<Rightarrow> Fault + Inferrer" where
  "exitLet d i body st =
     (if \<not> Mapping.is_empty (errors st) then Inr st
      else
        (case fetchResult st (exId body) of
           Inl f \<Rightarrow> Inl f
         | Inr e \<Rightarrow> Inr (addToResults d i (forwardResult e) st)))"

fun enterLambda :: "Env \<Rightarrow> QuintLambdaParameter list \<Rightarrow> Inferrer \<Rightarrow> Inferrer" where
  "enterLambda d [] st = st"
| "enterLambda d (p # ps) st =
     (let (varName, st1) =
            (if paramName p = ''_'' then freshVar ''e'' st
             else (''e_'' @ paramName p @ ''_'' @ bigintToString (paramId p), st))
      in enterLambda d ps
           (addToResults d (paramId p) (Inr (toScheme d (VariableEffect varName))) st1))"

text \<open>
  The parameters of a lambda at its exit: each result is fetched, instantiated, put under
  the running substitution and recorded again, in turn.
\<close>

fun lambdaParams ::
  "Env \<Rightarrow> QuintLambdaParameter list \<Rightarrow> Inferrer
     \<Rightarrow> Fault + ((ErrorTree + Effect) list \<times> Inferrer)" where
  "lambdaParams d [] st = Inr ([], st)"
| "lambdaParams d (p # ps) st =
     (case fetchResult st (paramId p) of
        Inl f \<Rightarrow> Inl f
      | Inr fetched \<Rightarrow>
          (case (case fetched of
                   Inl t \<Rightarrow> Inr (Inl t, st)
                 | Inr sch \<Rightarrow>
                     (case newInstance d sch st of
                        Inl f \<Rightarrow> Inl f
                      | Inr (e, st1) \<Rightarrow> Inr (applySubstitution d (substitutions st1) e, st1))) of
             Inl f \<Rightarrow> Inl f
           | Inr (result, st1) \<Rightarrow>
               (case lambdaParams d ps (addToResults d (paramId p) (schemeResult d result) st1) of
                  Inl f \<Rightarrow> Inl f
                | Inr (rs, st2) \<Rightarrow> Inr (result # rs, st2))))"

text \<open>A \<^verbatim>\<open>Set\<close> built from an array keeps the first occurrence of each name.\<close>

definition newSet :: "string list \<Rightarrow> string list" where
  "newSet names = rev (remdups (rev names))"

definition nonFreeNames :: "Env \<Rightarrow> Effect list \<Rightarrow> string list \<times> string list" where
  "nonFreeNames d params =
     foldl (\<lambda>names p.
              (newSet (fst names @ fst (effectNames d p)),
               newSet (snd names @ snd (effectNames d p))))
       ([], []) params"

text \<open>
  The effect of the lambda before the check of its result: the arrow from the parameters
  to the body, instantiated and put under the running substitution.
\<close>

definition lambdaEffect ::
  "Env \<Rightarrow> ErrorTree + EffectScheme \<Rightarrow> (ErrorTree + Effect) list \<Rightarrow> Inferrer
     \<Rightarrow> Fault + (Error + Effect)" where
  "lambdaEffect d exprResult rs st =
     (case exprResult of
        Inl t \<Rightarrow> Inr (Inl (Single t))
      | Inr resultEffect \<Rightarrow>
          (case mergeInMany rs of
             Inl ts \<Rightarrow> Inr (Inl (Several ts))
           | Inr ps \<Rightarrow>
               (case newInstanceUnbound d
                       (resultEffect\<lparr>effect := ArrowEffect ps (effect resultEffect)\<rparr>) of
                  Inl f \<Rightarrow> Inl f
                | Inr e \<Rightarrow>
                    (case applySubstitution d (substitutions st) e of
                       Inl t \<Rightarrow> Inr (Inl (Single t))
                     | Inr e' \<Rightarrow> Inr (Inr e')))))"

definition operatorResultError :: "Env \<Rightarrow> Inferrer \<Rightarrow> ErrorTree" where
  "operatorResultError d st = buildErrorLeaf d (location st) ''Result cannot be an opperator''"

text \<open>
  The first half of \<^verbatim>\<open>exitLambda\<close>: the result of the body is fetched, the parameters are
  recorded again, and the effect of the lambda is resolved.
\<close>

definition resolveLambda ::
  "Env \<Rightarrow> QuintLambdaParameter list \<Rightarrow> QuintEx \<Rightarrow> Inferrer
     \<Rightarrow> Fault + ((Error + Effect) \<times> Inferrer)" where
  "resolveLambda d params body st =
     (case fetchResult st (exId body) of
        Inl f \<Rightarrow> Inl f
      | Inr exprResult \<Rightarrow>
          (case lambdaParams d params st of
             Inl f \<Rightarrow> Inl f
           | Inr (rs, st1) \<Rightarrow>
               (case lambdaEffect d exprResult rs st1 of
                  Inl f \<Rightarrow> Inl f
                | Inr r \<Rightarrow> Inr (r, st1))))"

text \<open>
  The second half: the resolved effect must be an arrow; when the result of the arrow is
  an arrow again, an error is recorded at the body; the scheme of the lambda quantifies
  the names of its parameters and is recorded at the lambda.
\<close>

definition exitLambda ::
  "Env \<Rightarrow> int \<Rightarrow> QuintLambdaParameter list \<Rightarrow> QuintEx \<Rightarrow> Inferrer \<Rightarrow> Fault + Inferrer" where
  "exitLambda d i params body st =
     (if \<not> Mapping.is_empty (errors st) then Inr st
      else
        (case resolveLambda d params body st of
           Inl f \<Rightarrow> Inl f
         | Inr (Inl err, st1) \<Rightarrow> Inr (addToResults d i (Inl err) st1)
         | Inr (Inr (ArrowEffect ps res), st1) \<Rightarrow>
             (let st2 =
                    (case res of
                       ArrowEffect ps' res' \<Rightarrow>
                         addToResults d (exId body)
                           (Inl (Single (operatorResultError d st1))) st1
                     | ConcreteEffect cs \<Rightarrow> st1
                     | VariableEffect v \<Rightarrow> st1)
              in Inr (addToResults d i
                        (Inr \<lparr>effect = ArrowEffect ps res,
                              effectVariables = fst (nonFreeNames d ps),
                              entityVariables = snd (nonFreeNames d ps)\<rparr>) st2))
         | Inr (Inr (ConcreteEffect cs), st1) \<Rightarrow> Inl (NotAnArrow (ConcreteEffect cs))
         | Inr (Inr (VariableEffect v), st1) \<Rightarrow> Inl (NotAnArrow (VariableEffect v))))"

section \<open>The traversal\<close>

text \<open>
  Modelled from the spec: \<^verbatim>\<open>walkDefinition\<close> of \<^verbatim>\<open>IRVisitor\<close> (its source is not at hand) is "a
  single recursive post-order traversal": \<^verbatim>\<open>enterExpr\<close> at every expression, the
  parameters of a lambda bound at its entry, the arguments of an application, the
  definition and then the body of a let visited before the exit callback of the node.
\<close>

fun walkExpression :: "Env \<Rightarrow> QuintEx \<Rightarrow> Inferrer \<Rightarrow> Fault + Inferrer"
  and walkOpDef :: "Env \<Rightarrow> QuintOpDef \<Rightarrow> Inferrer \<Rightarrow> Fault + Inferrer"
  and walkExpressions :: "Env \<Rightarrow> QuintEx list \<Rightarrow> Inferrer \<Rightarrow> Fault + Inferrer" where
  "walkExpression d (QuintName i n) st = exitName d i n (enterExpr d (QuintName i n) st)"
| "walkExpression d (QuintBool i b) st = Inr (exitLiteral d i (enterExpr d (QuintBool i b) st))"
| "walkExpression d (QuintInt i v) st = Inr (exitLiteral d i (enterExpr d (QuintInt i v) st))"
| "walkExpression d (QuintStr i s) st = Inr (exitLiteral d i (enterExpr d (QuintStr i s) st))"
| "walkExpression d (QuintApp i opcode args) st =
     (case walkExpressions d args (enterExpr d (QuintApp i opcode args) st) of
        Inl f \<Rightarrow> Inl f
      | Inr st1 \<Rightarrow> exitApp d i opcode args st1)"
| "walkExpression d (QuintLambda i ps body) st =
     (case walkExpression d body (enterLambda d ps (enterExpr d (QuintLambda i ps body) st)) of
        Inl f \<Rightarrow> Inl f
      | Inr st1 \<Rightarrow> exitLambda d i ps body st1)"
| "walkExpression d (QuintLet i opdef body) st =
     (case walkOpDef d opdef (enterExpr d (QuintLet i opdef body) st) of
        Inl f \<Rightarrow> Inl f
      | Inr st1 \<Rightarrow>
          (case walkExpression d body st1 of
             Inl f \<Rightarrow> Inl f
           | Inr st2 \<Rightarrow> exitLet d i body st2))"
| "walkOpDef d (QuintOpDef i n body) st =
     (case walkExpression d body st of
        Inl f \<Rightarrow> Inl f
      | Inr st1 \<Rightarrow> exitOpDef d i body st1)"
| "walkExpressions d [] st = Inr st"
| "walkExpressions d (e # es) st =
     (case walkExpression d e st of
        Inl f \<Rightarrow> Inl f
      | Inr st1 \<Rightarrow> walkExpressions d es st1)"

fun walkDefinition :: "Env \<Rightarrow> QuintDef \<Rightarrow> Inferrer \<Rightarrow> Fault + Inferrer" where
  "walkDefinition d (DefOp opdef) st = walkOpDef d opdef st"
| "walkDefinition d (DefConst i n typeAnnotation) st = Inr (exitConst d i typeAnnotation st)"
| "walkDefinition d (DefVar i n) st = Inr (exitVar d i n st)"

fun walkDefinitions :: "Env \<Rightarrow> QuintDef list \<Rightarrow> Inferrer \<Rightarrow> Fault + Inferrer" where
  "walkDefinitions d [] st = Inr st"
| "walkDefinitions d (def # defs) st =
     (case walkDefinition d def st of
        Inl f \<Rightarrow> Inl f
      | Inr st1 \<Rightarrow> walkDefinitions d defs st1)"

text \<open>
  \<^verbatim>\<open>inferEffects\<close> walks the definitions in order and returns the two maps, errors first.
\<close>

definition inferEffects ::
  "Env \<Rightarrow> QuintDef list \<Rightarrow> Inferrer
     \<Rightarrow> Fault + ((int, ErrorTree) mapping \<times> (int, EffectScheme) mapping)" where
  "inferEffects d defs st =
     (case walkDefinitions d defs st of
        Inl f \<Rightarrow> Inl f
      | Inr st1 \<Rightarrow> Inr (errors st1, effects st1))"

section \<open>An environment for the examples\<close>

text \<open>
  The theorems below hold for every environment. Their instances are evaluated in one
  environment, whose functions follow what the spec says of those modules.
\<close>

fun entityNames :: "Entity \<Rightarrow> string list" where
  "entityNames (ConcreteEntity vs) = []"
| "entityNames (VariableEntity n) = [n]"
| "entityNames (UnionEntity es) = concat (map entityNames es)"

fun componentEntity :: "EffectComponent \<Rightarrow> Entity" where
  "componentEntity (EffectComponent k e) = e"

fun effectVariableNames :: "Effect \<Rightarrow> string list" where
  "effectVariableNames (ConcreteEffect cs) = []"
| "effectVariableNames (VariableEffect n) = [n]"
| "effectVariableNames (ArrowEffect ps r) =
     concat (map effectVariableNames ps) @ effectVariableNames r"

fun entityVariableNames :: "Effect \<Rightarrow> string list" where
  "entityVariableNames (ConcreteEffect cs) = concat (map (entityNames \<circ> componentEntity) cs)"
| "entityVariableNames (VariableEffect n) = []"
| "entityVariableNames (ArrowEffect ps r) =
     concat (map entityVariableNames ps) @ entityVariableNames r"

text \<open>
  Modelled from the spec: \<^verbatim>\<open>effectNames\<close> of \<^verbatim>\<open>effects/base\<close> (its source is not at hand),
  "\<^verbatim>\<open>freeNames(effect)\<close> recursively collects variable names, deduplicated".
\<close>

definition specEffectNames :: "Effect \<Rightarrow> string list \<times> string list" where
  "specEffectNames e = (newSet (effectVariableNames e), newSet (entityVariableNames e))"

text \<open>
  Modelled from the spec: \<^verbatim>\<open>toScheme\<close> of \<^verbatim>\<open>effects/base\<close> (its source is not at hand) wraps an
  effect as a scheme. It quantifies no name: the rule (LAMBDA-PARAM) written in the
  inferrer gives a reference to a parameter the very variable recorded for the parameter,
  and \<^verbatim>\<open>exitLambda\<close> builds the quantified scheme of a lambda by itself.
\<close>

definition specToScheme :: "Effect \<Rightarrow> EffectScheme" where
  "specToScheme e = \<lparr>effect = e, effectVariables = [], entityVariables = []\<rparr>"

fun findEffect :: "string \<Rightarrow> Substitutions \<Rightarrow> Effect option" where
  "findEffect n [] = None"
| "findEffect n (EffectSubstitution m e # subs) = (if m = n then Some e else findEffect n subs)"
| "findEffect n (EntitySubstitution m v # subs) = findEffect n subs"

fun findEntity :: "string \<Rightarrow> Substitutions \<Rightarrow> Entity option" where
  "findEntity n [] = None"
| "findEntity n (EntitySubstitution m v # subs) = (if m = n then Some v else findEntity n subs)"
| "findEntity n (EffectSubstitution m e # subs) = findEntity n subs"

fun substituteEntity :: "Substitutions \<Rightarrow> Entity \<Rightarrow> Entity" where
  "substituteEntity subs (ConcreteEntity vs) = ConcreteEntity vs"
| "substituteEntity subs (VariableEntity n) =
     (case findEntity n subs of None \<Rightarrow> VariableEntity n | Some v \<Rightarrow> v)"
| "substituteEntity subs (UnionEntity es) = UnionEntity (map (substituteEntity subs) es)"

fun substituteComponent :: "Substitutions \<Rightarrow> EffectComponent \<Rightarrow> EffectComponent" where
  "substituteComponent subs (EffectComponent k e) = EffectComponent k (substituteEntity subs e)"

fun substituteEffect :: "Substitutions \<Rightarrow> Effect \<Rightarrow> Effect" where
  "substituteEffect subs (ConcreteEffect cs) = ConcreteEffect (map (substituteComponent subs) cs)"
| "substituteEffect subs (VariableEffect n) =
     (case findEffect n subs of None \<Rightarrow> VariableEffect n | Some e \<Rightarrow> e)"
| "substituteEffect subs (ArrowEffect ps r) =
     ArrowEffect (map (substituteEffect subs) ps) (substituteEffect subs r)"

fun selfReferential :: "Substitution \<Rightarrow> bool" where
  "selfReferential (EffectSubstitution n e) =
     (e \<noteq> VariableEffect n \<and> n \<in> set (effectVariableNames e))"
| "selfReferential (EntitySubstitution n v) =
     (v \<noteq> VariableEntity n \<and> n \<in> set (entityNames v))"

text \<open>
  Modelled from the spec: \<^verbatim>\<open>applySubstitution\<close> of \<^verbatim>\<open>effects/substitutions\<close> (its source is not
  at hand) "recursively rewrites a term, replacing every occurrence of a bound variable
  with its bound value; unresolved variables pass through unchanged; fails (returns an
  error) only on detecting an invalid self-referential binding".
\<close>

definition specApplySubstitution :: "Substitutions \<Rightarrow> Effect \<Rightarrow> ErrorTree + Effect" where
  "specApplySubstitution subs e =
     (if list_ex selfReferential subs
      then Inl (ErrorTree (Some ''Self-referential binding'') ''Applying substitution'' [])
      else Inr (substituteEffect subs e))"

fun substituteBinding :: "Substitutions \<Rightarrow> Substitution \<Rightarrow> Substitution" where
  "substituteBinding subs (EffectSubstitution n e) = EffectSubstitution n (substituteEffect subs e)"
| "substituteBinding subs (EntitySubstitution n v) = EntitySubstitution n (substituteEntity subs v)"

fun boundBy :: "Substitutions \<Rightarrow> Substitution \<Rightarrow> bool" where
  "boundBy subs (EffectSubstitution n e) = (findEffect n subs \<noteq> None)"
| "boundBy subs (EntitySubstitution n v) = (findEntity n subs \<noteq> None)"

text \<open>
  Modelled from the spec: \<^verbatim>\<open>compose\<close> of \<^verbatim>\<open>effects/substitutions\<close> (its source is not at hand)
  "applies \<^verbatim>\<open>newer\<close> to every value inside \<^verbatim>\<open>older\<close>'s bindings, then appends \<^verbatim>\<open>newer\<close>'s
  bindings whose variables are not already bound by the rewritten \<^verbatim>\<open>older\<close>".
\<close>

definition specCompose :: "Substitutions \<Rightarrow> Substitutions \<Rightarrow> ErrorTree + Substitutions" where
  "specCompose older newer =
     (if list_ex selfReferential newer
      then Inl (ErrorTree (Some ''Self-referential binding'') ''Composing substitutions'' [])
      else Inr (map (substituteBinding newer) older
                @ filter (\<lambda>b. \<not> boundBy (map (substituteBinding newer) older) b) newer))"

text \<open>
  Modelled from the spec: of the unifier of \<^verbatim>\<open>effects/base\<close> (its source is not at hand) the
  cases 1 to 3 and 7 of the spec: identical terms give the empty substitution, a variable
  is bound to the other side unless it occurs there, and any other pair of different
  kinds is a mismatch. The descent into two arrows or two concrete effects (cases 4 to 6)
  is left out, and two different terms of the same kind are answered as a mismatch too,
  which is not what the spec says of them. No example below applies an operator whose
  signature is known, so none reaches the unifier, and no theorem depends on it.
\<close>

definition specUnify :: "Effect \<Rightarrow> Effect \<Rightarrow> ErrorTree + Substitutions" where
  "specUnify a b =
     (if a = b then Inr []
      else
        (case (a, b) of
           (VariableEffect n, e) \<Rightarrow>
             (if n \<in> set (effectVariableNames e)
              then Inl (ErrorTree (Some ''Occurs check failed'') ''Unifying'' [])
              else Inr [EffectSubstitution n e])
         | (e, VariableEffect n) \<Rightarrow>
             (if n \<in> set (effectVariableNames e)
              then Inl (ErrorTree (Some ''Occurs check failed'') ''Unifying'' [])
              else Inr [EffectSubstitution n e])
         | (e, e') \<Rightarrow> Inl (ErrorTree (Some ''Kind mismatch'') ''Unifying'' [])))"

text \<open>
  Modelled from the spec: the error trees of \<^verbatim>\<open>errorTree\<close> (its source is not at hand), "a node
  carrying a human-readable message, a location description and an ordered list of child
  error trees"; a parent adds "its own location frame as a new root, children become
  subtrees".
\<close>

definition specBuildErrorLeaf :: "string \<Rightarrow> string \<Rightarrow> ErrorTree" where
  "specBuildErrorLeaf loc msg = ErrorTree (Some msg) loc []"

definition specBuildErrorTree :: "string \<Rightarrow> Error \<Rightarrow> ErrorTree" where
  "specBuildErrorTree loc err =
     ErrorTree None loc (case err of Single t \<Rightarrow> [t] | Several ts \<Rightarrow> ts)"

text \<open>
  Printing is outside the spec; the examples render an expression by its kind and its
  name, which only shows in the location texts of the error trees.
\<close>

fun specExpressionToString :: "QuintEx \<Rightarrow> string" where
  "specExpressionToString (QuintName i n) = n"
| "specExpressionToString (QuintBool i b) = (if b then ''true'' else ''false'')"
| "specExpressionToString (QuintInt i v) = bigintToString v"
| "specExpressionToString (QuintStr i s) = s"
| "specExpressionToString (QuintApp i opcode args) = opcode @ ''(...)''"
| "specExpressionToString (QuintLambda i ps body) = ''(...) => '' @ specExpressionToString body"
| "specExpressionToString (QuintLet i opdef body) = ''def { '' @ specExpressionToString body @ '' }''"

text \<open>
  Modelled from the spec: \<^verbatim>\<open>standardPropagation\<close> of \<^verbatim>\<open>effects/builtinSignatures\<close> (its source
  is not at hand) is an arrow "with that many parameters" whose "result effect is the union
  of a fixed pointwise combination over the arguments' \<^verbatim>\<open>read\<close> (and, for temporal
  operators, \<^verbatim>\<open>temporal\<close>) entities". No example declares a constant of operator type.
\<close>

definition specStandardPropagation :: "nat \<Rightarrow> EffectScheme" where
  "specStandardPropagation n =
     (let rs = map (\<lambda>k. ''r'' @ digitsOf k) [1..<Suc n];
          ts = map (\<lambda>k. ''t'' @ digitsOf k) [1..<Suc n]
      in \<lparr>effect =
            ArrowEffect
              (map (\<lambda>(r, t). ConcreteEffect
                        [EffectComponent Read (VariableEntity r),
                         EffectComponent Temporal (VariableEntity t)]) (zip rs ts))
              (ConcreteEffect
                 [EffectComponent Read (UnionEntity (map VariableEntity rs)),
                  EffectComponent Temporal (UnionEntity (map VariableEntity ts))]),
          effectVariables = [],
          entityVariables = rs @ ts\<rparr>)"

text \<open>The environment of a module without builtin operators, for a lookup table \<open>table\<close>.\<close>

definition exampleEnv :: "(int \<times> int) list \<Rightarrow> Env" where
  "exampleEnv table =
     \<lparr>lookupTable = map_of (map (\<lambda>(i, r). (i, LookupDefinition (Some r))) table),
      builtinSignatures = Map.empty,
      standardPropagation = specStandardPropagation,
      toScheme = specToScheme,
      effectNames = specEffectNames,
      unify = specUnify,
      compose = specCompose,
      applySubstitution = specApplySubstitution,
      buildErrorTree = specBuildErrorTree,
      buildErrorLeaf = specBuildErrorLeaf,
      expressionToString = specExpressionToString\<rparr>"

text \<open>
  A module with an operator-valued result: \<^verbatim>\<open>def f(p) = p\<close> and \<^verbatim>\<open>def g(q) = f\<close>. The identities are: parameter \<open>p\<close> 1, the name \<open>p\<close> 2,
  the lambda of \<open>f\<close> 3, the definition \<open>f\<close> 4, parameter \<open>q\<close> 5, the name \<open>f\<close> 6, the lambda of
  \<open>g\<close> 7, the definition \<open>g\<close> 8.
\<close>

definition operatorResultModule :: "QuintDef list" where
  "operatorResultModule =
     [DefOp (QuintOpDef 4 ''f'' (QuintLambda 3 [QuintLambdaParameter 1 ''p''] (QuintName 2 ''p''))),
      DefOp (QuintOpDef 8 ''g'' (QuintLambda 7 [QuintLambdaParameter 5 ''q''] (QuintName 6 ''f'')))]"

definition operatorResultEnv :: Env where
  "operatorResultEnv = exampleEnv [(2, 1), (6, 4)]"

text \<open>
  The same with a lambda around the body of \<open>g\<close>: \<^verbatim>\<open>def f(p) = p\<close> and
  \<^verbatim>\<open>def g(q) = ((r) => f)\<close>. The identities of \<open>g\<close> are: parameter \<open>q\<close> 5, parameter \<open>r\<close> 6, the
  name \<open>f\<close> 7, the inner lambda 8, the outer lambda 9, the definition 10.
\<close>

definition nestedLambdaModule :: "QuintDef list" where
  "nestedLambdaModule =
     [DefOp (QuintOpDef 4 ''f'' (QuintLambda 3 [QuintLambdaParameter 1 ''p''] (QuintName 2 ''p''))),
      DefOp (QuintOpDef 10 ''g''
        (QuintLambda 9 [QuintLambdaParameter 5 ''q'']
           (QuintLambda 8 [QuintLambdaParameter 6 ''r''] (QuintName 7 ''f''))))]"

definition nestedLambdaEnv :: Env where
  "nestedLambdaEnv = exampleEnv [(2, 1), (7, 4)]"

text \<open>
  A module with an undeclared operator in its second definition:
  \<^verbatim>\<open>var x\<close>, \<^verbatim>\<open>def a = foo(1)\<close>, \<^verbatim>\<open>def b = x\<close>, \<^verbatim>\<open>def c = 2\<close>, \<^verbatim>\<open>def e = bar(3)\<close>.
  The identities are: \<open>x\<close> 1; the literal 2, the application 3, the definition \<open>a\<close> 4; the
  name \<open>x\<close> 5, the definition \<open>b\<close> 6; the literal 7, the definition \<open>c\<close> 8; the literal 9, the
  application 10, the definition \<open>e\<close> 11.
\<close>

definition undeclaredModule :: "QuintDef list" where
  "undeclaredModule =
     [DefVar 1 ''x'',
      DefOp (QuintOpDef 4 ''a'' (QuintApp 3 ''foo'' [QuintInt 2 1])),
      DefOp (QuintOpDef 6 ''b'' (QuintName 5 ''x'')),
      DefOp (QuintOpDef 8 ''c'' (QuintInt 7 2)),
      DefOp (QuintOpDef 11 ''e'' (QuintApp 10 ''bar'' [QuintInt 9 3]))]"

definition undeclaredEnv :: Env where
  "undeclaredEnv = exampleEnv [(5, 1)]"

text \<open>The state that a walk ends in; the initial state stands for a walk that has thrown.\<close>

definition finalState :: "Fault + Inferrer \<Rightarrow> Inferrer" where
  "finalState r = (case r of Inl f \<Rightarrow> EffectInferrer Mapping.empty | Inr st \<Rightarrow> st)"

text \<open>
  The state reached in that module after \<^verbatim>\<open>var x\<close> and \<^verbatim>\<open>def a = foo(1)\<close>: the error of
  the undeclared operator is in the error map.
\<close>

definition afterUndeclared :: Inferrer where
  "afterUndeclared =
     finalState
       (walkDefinitions undeclaredEnv (take 2 undeclaredModule) (EffectInferrer Mapping.empty))"

text \<open>
  A module that refers to a definition before it is walked: \<^verbatim>\<open>def b = c\<close>, \<^verbatim>\<open>def c = 2\<close>.
  The identities are: the name \<open>c\<close> 1, the definition \<open>b\<close> 2, the literal 3, the definition
  \<open>c\<close> 4.
\<close>

definition forwardModule :: "QuintDef list" where
  "forwardModule =
     [DefOp (QuintOpDef 2 ''b'' (QuintName 1 ''c'')),
      DefOp (QuintOpDef 4 ''c'' (QuintInt 3 2))]"

definition forwardEnv :: Env where
  "forwardEnv = exampleEnv [(1, 4)]"

text \<open>
  The state before the exit of the application \<^verbatim>\<open>foo(1)\<close> of that module: \<^verbatim>\<open>var x\<close> and
  the argument have been walked.
\<close>

definition beforeUndeclared :: Inferrer where
  "beforeUndeclared =
     finalState
       (walkExpressions undeclaredEnv [QuintInt 2 1]
          (enterExpr undeclaredEnv (QuintApp 3 ''foo'' [QuintInt 2 1])
             (exitVar undeclaredEnv 1 ''x'' (EffectInferrer Mapping.empty))))"

text \<open>
  The state before the exit of the lambda of \<open>g\<close> in \<^verbatim>\<open>def f(p) = p\<close>, \<^verbatim>\<open>def g(q) = f\<close>: the
  definition \<open>f\<close> has been walked, the parameter \<open>q\<close> is bound and the body of \<open>g\<close>, the name
  \<open>f\<close>, has been walked.
\<close>

definition beforeExitG :: Inferrer where
  "beforeExitG =
     finalState
       (walkExpression operatorResultEnv (QuintName 6 ''f'')
          (enterLambda operatorResultEnv [QuintLambdaParameter 5 ''q'']
             (enterExpr operatorResultEnv
                (QuintLambda 7 [QuintLambdaParameter 5 ''q''] (QuintName 6 ''f''))
                (finalState
                   (walkDefinitions operatorResultEnv (take 1 operatorResultModule)
                      (EffectInferrer Mapping.empty))))))"

text \<open>
  The state of that module at the name \<open>x\<close> when the definition \<^verbatim>\<open>def a = foo(1)\<close> is left
  out: \<^verbatim>\<open>var x\<close> has been walked and the name is entered.
\<close>

definition atNameX :: Inferrer where
  "atNameX =
     enterExpr undeclaredEnv (QuintName 5 ''x'')
       (exitVar undeclaredEnv 1 ''x'' (EffectInferrer Mapping.empty))"

text \<open>The state of the forward reference at the name \<open>c\<close>: nothing is recorded yet.\<close>

definition atNameC :: Inferrer where
  "atNameC = enterExpr forwardEnv (QuintName 1 ''c'') (EffectInferrer Mapping.empty)"

text \<open>
  A lambda with a lambda as its body: \<^verbatim>\<open>def g(q) = ((r) => 1)\<close>. The identities are: parameter
  \<open>q\<close> 1, parameter \<open>r\<close> 2, the literal 3, the inner lambda 4, the outer lambda 5, the
  definition \<open>g\<close> 6. The state before the exit of the outer lambda has the scheme of the
  inner lambda, which quantifies the name of \<open>r\<close>.
\<close>

definition lambdaBodyModule :: "QuintDef list" where
  "lambdaBodyModule =
     [DefOp (QuintOpDef 6 ''g''
        (QuintLambda 5 [QuintLambdaParameter 1 ''q'']
           (QuintLambda 4 [QuintLambdaParameter 2 ''r''] (QuintInt 3 1))))]"

definition lambdaBodyEnv :: Env where
  "lambdaBodyEnv = exampleEnv []"

definition beforeExitOuter :: Inferrer where
  "beforeExitOuter =
     finalState
       (walkExpression lambdaBodyEnv (QuintLambda 4 [QuintLambdaParameter 2 ''r''] (QuintInt 3 1))
          (enterLambda lambdaBodyEnv [QuintLambdaParameter 1 ''q'']
             (enterExpr lambdaBodyEnv
                (QuintLambda 5 [QuintLambdaParameter 1 ''q'']
                   (QuintLambda 4 [QuintLambdaParameter 2 ''r''] (QuintInt 3 1)))
                (EffectInferrer Mapping.empty))))"

text \<open>
  A variable declared at the identity 0: \<^verbatim>\<open>var x\<close> (identity 0) and \<^verbatim>\<open>def b = x\<close> (the name \<open>x\<close>
  1, the definition \<open>b\<close> 2).
\<close>

definition zeroModule :: "QuintDef list" where
  "zeroModule = [DefVar 0 ''x'', DefOp (QuintOpDef 2 ''b'' (QuintName 1 ''x''))]"

definition zeroEnv :: Env where
  "zeroEnv = exampleEnv [(1, 0)]"

text \<open>
  What the rule of a lambda needs of \<^verbatim>\<open>applySubstitution\<close>: when substituting in an arrow
  succeeds, the outcome is an arrow, and its result is what substituting in the result of
  the arrow gives.
\<close>

definition substitutesResult :: "Env \<Rightarrow> bool" where
  "substitutesResult d =
     (\<forall>s ps r e. applySubstitution d s (ArrowEffect ps r) = Inr e \<longrightarrow>
        (\<exists>ps' r'. e = ArrowEffect ps' r' \<and> applySubstitution d s r = Inr r'))"

section \<open>Reading the outcome of a run\<close>

definition completed :: "Fault + 'a \<Rightarrow> bool" where
  "completed r = (case r of Inl f \<Rightarrow> False | Inr a \<Rightarrow> True)"

definition errorAt ::
  "Fault + ((int, ErrorTree) mapping \<times> (int, EffectScheme) mapping) \<Rightarrow> int \<Rightarrow> ErrorTree option" where
  "errorAt r i = (case r of Inl f \<Rightarrow> None | Inr (errs, effs) \<Rightarrow> Mapping.lookup errs i)"

definition effectAt ::
  "Fault + ((int, ErrorTree) mapping \<times> (int, EffectScheme) mapping) \<Rightarrow> int \<Rightarrow> EffectScheme option" where
  "effectAt r i = (case r of Inl f \<Rightarrow> None | Inr (errs, effs) \<Rightarrow> Mapping.lookup effs i)"

definition inBothMaps ::
  "Fault + ((int, ErrorTree) mapping \<times> (int, EffectScheme) mapping) \<Rightarrow> int set" where
  "inBothMaps r =
     (case r of Inl f \<Rightarrow> {} | Inr (errs, effs) \<Rightarrow> Mapping.keys errs \<inter> Mapping.keys effs)"

text \<open>Two states that differ at most in the counter of fresh names.\<close>

definition onlyCounter :: "Inferrer \<Rightarrow> Inferrer \<Rightarrow> bool" where
  "onlyCounter st st' = (st' = st\<lparr>freshVarCounter := freshVarCounter st'\<rparr>)"

section \<open>The identities of a module\<close>

text \<open>The identities of all the nodes of an expression, parameters included.\<close>

fun exprIds :: "QuintEx \<Rightarrow> int list"
  and opDefIds :: "QuintOpDef \<Rightarrow> int list"
  and exprsIds :: "QuintEx list \<Rightarrow> int list" where
  "exprIds (QuintName i n) = [i]"
| "exprIds (QuintBool i b) = [i]"
| "exprIds (QuintInt i v) = [i]"
| "exprIds (QuintStr i s) = [i]"
| "exprIds (QuintApp i opcode args) = i # exprsIds args"
| "exprIds (QuintLambda i ps body) = i # map paramId ps @ exprIds body"
| "exprIds (QuintLet i opdef body) = i # opDefIds opdef @ exprIds body"
| "opDefIds (QuintOpDef i n body) = i # exprIds body"
| "exprsIds [] = []"
| "exprsIds (e # es) = exprIds e @ exprsIds es"

fun defIds :: "QuintDef \<Rightarrow> int list" where
  "defIds (DefOp opdef) = opDefIds opdef"
| "defIds (DefConst i n typeAnnotation) = [i]"
| "defIds (DefVar i n) = [i]"

definition moduleIds :: "QuintDef list \<Rightarrow> int list" where
  "moduleIds defs = concat (map defIds defs)"

text \<open>
  The identities that the walker records more than once: the parameters of a lambda (at
  its entry and at its exit), the body of a lambda (by its own rule, and by the check of
  the result of the lambda), the arguments of an application (by their own rule, and
  re-published by the application).
\<close>

fun recordedAgain :: "QuintEx \<Rightarrow> int list"
  and recordedAgainOpDef :: "QuintOpDef \<Rightarrow> int list"
  and recordedAgainList :: "QuintEx list \<Rightarrow> int list" where
  "recordedAgain (QuintName i n) = []"
| "recordedAgain (QuintBool i b) = []"
| "recordedAgain (QuintInt i v) = []"
| "recordedAgain (QuintStr i s) = []"
| "recordedAgain (QuintApp i opcode args) = map exId args @ recordedAgainList args"
| "recordedAgain (QuintLambda i ps body) = map paramId ps @ exId body # recordedAgain body"
| "recordedAgain (QuintLet i opdef body) = recordedAgainOpDef opdef @ recordedAgain body"
| "recordedAgainOpDef (QuintOpDef i n body) = recordedAgain body"
| "recordedAgainList [] = []"
| "recordedAgainList (e # es) = recordedAgain e @ recordedAgainList es"

fun recordedAgainDef :: "QuintDef \<Rightarrow> int list" where
  "recordedAgainDef (DefOp opdef) = recordedAgainOpDef opdef"
| "recordedAgainDef (DefConst i n typeAnnotation) = []"
| "recordedAgainDef (DefVar i n) = []"

definition moduleRecordedAgain :: "QuintDef list \<Rightarrow> int list" where
  "moduleRecordedAgain defs = concat (map recordedAgainDef defs)"

text \<open>
  The identities with an entry in one of the result maps, and those with an entry in both.
  A step \<open>writes W R\<close> when it adds entries at the identities \<open>W\<close> only, and when only
  identities of \<open>R\<close> come to have an entry in both maps.
\<close>

definition known :: "Inferrer \<Rightarrow> int set" where
  "known st = Mapping.keys (effects st) \<union> Mapping.keys (errors st)"

definition inBoth :: "Inferrer \<Rightarrow> int set" where
  "inBoth st = Mapping.keys (effects st) \<inter> Mapping.keys (errors st)"

definition writes :: "int set \<Rightarrow> int set \<Rightarrow> Inferrer \<Rightarrow> Inferrer \<Rightarrow> bool" where
  "writes W R st st' = (known st' \<subseteq> known st \<union> W \<and> inBoth st' \<subseteq> inBoth st \<union> R)"

section \<open>Recording and fetching results\<close>

lemma addToResults_Inr:
  "addToResults d i (Inr r) st = st\<lparr>effects := Mapping.update i r (effects st)\<rparr>"
  by (simp add: addToResults_def)

lemma addToResults_Inl:
  "addToResults d i (Inl err) st =
     st\<lparr>errors := Mapping.update i (buildErrorTree d (location st) err) (errors st)\<rparr>"
  by (simp add: addToResults_def)

lemma fetchResult_missing:
  "Mapping.lookup (effects st) i = None \<Longrightarrow> Mapping.lookup (errors st) i = None
     \<Longrightarrow> fetchResult st i = Inl (NoResult i (location st))"
  by (simp add: fetchResult_def)

lemmas addToResults_simps = addToResults_Inr addToResults_Inl

lemma is_empty_lookup: "Mapping.is_empty m \<Longrightarrow> Mapping.lookup m i = None"
  by (auto simp: Mapping.is_empty_def keys_dom_lookup)

lemma fetchResult_no_errors:
  "Mapping.is_empty (errors st) \<Longrightarrow>
     fetchResult st i =
       (case Mapping.lookup (effects st) i of
          None \<Rightarrow> Inl (NoResult i (location st))
        | Some sch \<Rightarrow> Inr (Inr sch))"
  by (simp add: fetchResult_def is_empty_lookup)

section \<open>The short-circuit on errors\<close>

text \<open>
  C2. Once the error map is not empty, the rules of an application, of a let and of the
  exit of a lambda are skipped: the callbacks return the state they were given. The rules
  of a literal, of a constant declaration and of a variable declaration have no such
  guard and record their effect at the identity of the node.
\<close>

theorem error_short_circuit:
  assumes "\<not> Mapping.is_empty (errors st)"
  shows "exitApp d i opcode args st = Inr st
       \<and> exitLet d j body st = Inr st
       \<and> exitLambda d k ps b st = Inr st
       \<and> Mapping.lookup (effects (exitLiteral d l st)) l = Some (toScheme d (ConcreteEffect []))
       \<and> Mapping.lookup (effects (exitConst d l ty st)) l =
           Some (case ty of
                   OperType targs tres \<Rightarrow> standardPropagation d (length targs)
                 | OtherType \<Rightarrow> toScheme d (ConcreteEffect []))
       \<and> Mapping.lookup (effects (exitVar d l n st)) l = Some (toScheme d (readEffect n l))"
  using assms
  by (simp add: exitApp_def exitLet_def exitLambda_def exitLiteral_def exitConst_def
        exitVar_def pureEffect_def addToResults_simps split: QuintType.splits)

theorem error_short_circuit_witness:
  "\<not> Mapping.is_empty (errors afterUndeclared)
   \<and> exitApp undeclaredEnv 10 ''bar'' [QuintInt 9 3] afterUndeclared = Inr afterUndeclared
   \<and> exitLet undeclaredEnv 12 (QuintInt 9 3) afterUndeclared = Inr afterUndeclared
   \<and> exitLambda undeclaredEnv 13 [] (QuintInt 9 3) afterUndeclared = Inr afterUndeclared
   \<and> Mapping.lookup (effects (exitLiteral undeclaredEnv 9 afterUndeclared)) 9 =
       Some (toScheme undeclaredEnv (ConcreteEffect []))
   \<and> Mapping.lookup (effects (exitConst undeclaredEnv 14 OtherType afterUndeclared)) 14 =
       Some (toScheme undeclaredEnv (ConcreteEffect []))
   \<and> Mapping.lookup (effects (exitVar undeclaredEnv 15 ''y'' afterUndeclared)) 15 =
       Some (toScheme undeclaredEnv (readEffect ''y'' 15))"
proof -
  have broken: "\<not> Mapping.is_empty (errors afterUndeclared)"
    by code_simp
  show ?thesis
    using broken
      error_short_circuit [OF broken, where d = undeclaredEnv and i = 10 and opcode = "''bar''"
        and args = "[QuintInt 9 3]" and j = 12 and body = "QuintInt 9 3" and k = 13
        and ps = "[]" and b = "QuintInt 9 3" and l = 9 and ty = OtherType and n = "''y''"]
      error_short_circuit [OF broken, where d = undeclaredEnv and l = 14 and ty = OtherType]
      error_short_circuit [OF broken, where d = undeclaredEnv and l = 15 and n = "''y''"]
    by simp
qed

text \<open>
  C10. The rules of a name reference and of an operator definition have the same guard:
  with an error in the error map both callbacks return the state unchanged, so the walk
  of a name leaves both result maps as they were, and a node that had no entry has none
  afterwards.
\<close>

theorem names_and_definitions_skipped:
  assumes "\<not> Mapping.is_empty (errors st)"
  shows "exitName d i n st = Inr st
       \<and> exitOpDef d j body st = Inr st
       \<and> (\<exists>st'. walkExpression d (QuintName i n) st = Inr st'
                \<and> effects st' = effects st \<and> errors st' = errors st)"
  using assms by (simp add: exitName_def exitOpDef_def enterExpr_def)

theorem names_and_definitions_skipped_witness:
  "\<not> Mapping.is_empty (errors afterUndeclared)
   \<and> exitName undeclaredEnv 5 ''x'' afterUndeclared = Inr afterUndeclared
   \<and> exitOpDef undeclaredEnv 6 (QuintName 5 ''x'') afterUndeclared = Inr afterUndeclared
   \<and> (\<exists>st'. walkExpression undeclaredEnv (QuintName 5 ''x'') afterUndeclared = Inr st'
            \<and> effects st' = effects afterUndeclared \<and> errors st' = errors afterUndeclared)"
proof -
  have broken: "\<not> Mapping.is_empty (errors afterUndeclared)"
    by code_simp
  show ?thesis
    using broken
      names_and_definitions_skipped [OF broken, where d = undeclaredEnv and i = 5
        and n = "''x''" and j = 6 and body = "QuintName 5 ''x''"]
    by simp
qed

section \<open>Leaves\<close>

text \<open>
  C5. The walk of a literal, be it a boolean, an integer or a string, never fails and
  records at the identity of the literal the scheme of the effect \<open>Pure\<close>, the concrete
  effect with no component: no read, no update. No guard stands before the rule.
\<close>

theorem literal_is_pure:
  "(\<exists>st'. walkExpression d (QuintBool i b) st = Inr st'
      \<and> Mapping.lookup (effects st') i = Some (toScheme d (ConcreteEffect [])))
   \<and> (\<exists>st'. walkExpression d (QuintInt i v) st = Inr st'
      \<and> Mapping.lookup (effects st') i = Some (toScheme d (ConcreteEffect [])))
   \<and> (\<exists>st'. walkExpression d (QuintStr i s) st = Inr st'
      \<and> Mapping.lookup (effects st') i = Some (toScheme d (ConcreteEffect [])))"
  by (simp add: exitLiteral_def addToResults_simps)

section \<open>Steps that only draw fresh names\<close>

lemma onlyCounter_refl [simp]: "onlyCounter st st"
  by (simp add: onlyCounter_def)

lemma onlyCounter_trans: "onlyCounter a b \<Longrightarrow> onlyCounter b c \<Longrightarrow> onlyCounter a c"
  by (metis (no_types, lifting) onlyCounter_def Inferrer.update_convs(5) Inferrer.surjective)

lemma onlyCounter_fields:
  "onlyCounter st st' \<Longrightarrow>
     effects st' = effects st \<and> errors st' = errors st \<and> location st' = location st
     \<and> substitutions st' = substitutions st"
  by (metis onlyCounter_def Inferrer.select_convs(1-4) Inferrer.surjective Inferrer.update_convs(5))

lemma freshVar_onlyCounter: "freshVar p st = (v, st') \<Longrightarrow> onlyCounter st st'"
  by (auto simp: freshVar_def onlyCounter_def)

lemma freshEffectSubs_onlyCounter: "freshEffectSubs ns st = (subs, st') \<Longrightarrow> onlyCounter st st'"
proof (induction ns arbitrary: st subs st')
  case Nil
  then show ?case by simp
next
  case (Cons n ns)
  then show ?case
    by (auto split: prod.splits dest!: freshVar_onlyCounter intro: onlyCounter_trans)
qed

lemma freshEntitySubs_onlyCounter: "freshEntitySubs ns st = (subs, st') \<Longrightarrow> onlyCounter st st'"
proof (induction ns arbitrary: st subs st')
  case Nil
  then show ?case by simp
next
  case (Cons n ns)
  then show ?case
    by (auto split: prod.splits dest!: freshVar_onlyCounter intro: onlyCounter_trans)
qed

lemma newInstance_onlyCounter: "newInstance d sch st = Inr (e, st') \<Longrightarrow> onlyCounter st st'"
  by (auto simp: newInstance_def split: prod.splits sum.splits
        dest!: freshEffectSubs_onlyCounter freshEntitySubs_onlyCounter intro: onlyCounter_trans)

lemma instantiateResults_onlyCounter:
  "instantiateResults d ids st = Inr (rs, st') \<Longrightarrow> onlyCounter st st'"
proof (induction ids arbitrary: st rs st')
  case Nil
  then show ?case by simp
next
  case (Cons i ids)
  then show ?case
    by (auto split: sum.splits prod.splits dest!: newInstance_onlyCounter intro: onlyCounter_trans)
qed

lemma effectForName_onlyCounter:
  "effectForName d name i arity st = Inr (r, st') \<Longrightarrow> onlyCounter st st'"
  by (auto simp: effectForName_def split: option.splits sum.splits prod.splits if_splits
        dest!: newInstance_onlyCounter)

lemma completedE: "completed r \<Longrightarrow> \<exists>a. r = Inr a"
  by (cases r) (simp_all add: completed_def)

section \<open>Undeclared operators\<close>

text \<open>
  C3, as amended. An application is exited while the error map is empty, the results of
  its arguments are fetched and instantiated without a fault, and its operator name has
  no builtin signature and no entry in the lookup table. Then the callback records exactly
  one error, at the identity of the application (the error map has this one key), and
  the success map is left as it was.
\<close>

theorem undeclared_operator:
  assumes "Mapping.is_empty (errors st)"
    and "builtinSignatures d opcode = None"
    and "lookupTable d i = None"
    and "instantiateResults d (map exId args) (st\<lparr>location := appLocation d i opcode args\<rparr>)
           = Inr (rs, st1)"
  shows "\<exists>st'. exitApp d i opcode args st = Inr st'
           \<and> Mapping.keys (errors st') = {i}
           \<and> Mapping.lookup (errors st') i =
               Some (buildErrorTree d (appLocation d i opcode args)
                 (Single (buildErrorTree d (appLocation d i opcode args)
                   (Single (buildErrorLeaf d (appLocation d i opcode args)
                     (''Signature not found for name: '' @ opcode))))))
           \<and> effects st' = effects st"
proof -
  let ?L = "appLocation d i opcode args"
  obtain v st2 where fresh: "freshVar ''e'' st1 = (v, st2)"
    by (cases "freshVar ''e'' st1")
  have "onlyCounter (st\<lparr>location := ?L\<rparr>) st1"
    using assms(4) by (rule instantiateResults_onlyCounter)
  moreover have "onlyCounter st1 st2"
    using fresh by (rule freshVar_onlyCounter)
  ultimately have "onlyCounter (st\<lparr>location := ?L\<rparr>) st2"
    by (rule onlyCounter_trans)
  then have fields: "effects st2 = effects st" "errors st2 = errors st" "location st2 = ?L"
    by (auto dest: onlyCounter_fields)
  have name: "effectForName d opcode i (length args) st2
                = Inr (Inl (signatureNotFound d opcode st2), st2)"
    using assms(2,3) by (simp add: effectForName_def)
  have empty: "Mapping.keys (errors st) = {}"
    using assms(1) by (simp add: Mapping.is_empty_def)
  show ?thesis
    using assms(1,4) fresh name fields empty
    by (simp add: exitApp_def signatureNotFound_def addToResults_simps)
qed

theorem undeclared_operator_witness:
  "Mapping.is_empty (errors beforeUndeclared)
   \<and> builtinSignatures undeclaredEnv ''foo'' = None
   \<and> lookupTable undeclaredEnv 3 = None
   \<and> (\<exists>st'. exitApp undeclaredEnv 3 ''foo'' [QuintInt 2 1] beforeUndeclared = Inr st'
          \<and> Mapping.keys (errors st') = {3}
          \<and> effects st' = effects beforeUndeclared)"
proof -
  have h1: "Mapping.is_empty (errors beforeUndeclared)"
    by code_simp
  have h2: "builtinSignatures undeclaredEnv ''foo'' = None"
    by (simp add: undeclaredEnv_def exampleEnv_def)
  have h3: "lookupTable undeclaredEnv 3 = None"
    by (simp add: undeclaredEnv_def exampleEnv_def)
  have "completed (instantiateResults undeclaredEnv (map exId [QuintInt 2 1])
          (beforeUndeclared\<lparr>location := appLocation undeclaredEnv 3 ''foo'' [QuintInt 2 1]\<rparr>))"
    by code_simp
  then obtain rs st1 where h4:
    "instantiateResults undeclaredEnv (map exId [QuintInt 2 1])
       (beforeUndeclared\<lparr>location := appLocation undeclaredEnv 3 ''foo'' [QuintInt 2 1]\<rparr>)
       = Inr (rs, st1)"
    by (metis completedE surj_pair)
  show ?thesis
    using h1 h2 h3 undeclared_operator [OF h1 h2 h3 h4] by blast
qed

text \<open>
  C3 as stated fails: in the module \<^verbatim>\<open>var x\<close>, \<^verbatim>\<open>def a = foo(1)\<close>, ..., \<^verbatim>\<open>def e = bar(3)\<close> the
  operator \<open>bar\<close> has no builtin signature and the application (identity 10) has no entry
  in the lookup table, the run completes, and no error is recorded at the application:
  the error of \<open>foo\<close> came first, and the rule of an application is skipped after it.
\<close>

theorem undeclared_operator_counterexample:
  "builtinSignatures undeclaredEnv ''bar'' = None
   \<and> lookupTable undeclaredEnv 10 = None
   \<and> completed (inferEffects undeclaredEnv undeclaredModule (EffectInferrer Mapping.empty))
   \<and> errorAt (inferEffects undeclaredEnv undeclaredModule (EffectInferrer Mapping.empty)) 10 = None"
proof -
  have "builtinSignatures undeclaredEnv ''bar'' = None"
    by (simp add: undeclaredEnv_def exampleEnv_def)
  moreover have "lookupTable undeclaredEnv 10 = None"
    by (simp add: undeclaredEnv_def exampleEnv_def)
  moreover have "completed (inferEffects undeclaredEnv undeclaredModule (EffectInferrer Mapping.empty))"
    by code_simp
  moreover have "errorAt (inferEffects undeclaredEnv undeclaredModule (EffectInferrer Mapping.empty)) 10 = None"
    by code_simp
  ultimately show ?thesis by simp
qed

section \<open>Definitions and lets forward the effect of their body\<close>

text \<open>
  C7, as amended. An operator definition, or a let, is exited while the error map is
  empty and the success map has a scheme for its body. Then the callback records that very
  scheme at the identity of the definition (of the let): afterwards the success map has
  the same entry at the node and at its body, and the error map is as before.
\<close>

theorem body_effect_forwarded:
  assumes "Mapping.is_empty (errors st)"
    and "Mapping.lookup (effects st) (exId body) = Some sch"
  shows "(\<exists>st'. exitOpDef d i body st = Inr st'
            \<and> Mapping.lookup (effects st') i = Some sch
            \<and> Mapping.lookup (effects st') i = Mapping.lookup (effects st') (exId body)
            \<and> errors st' = errors st)
       \<and> (\<exists>st'. exitLet d i body st = Inr st'
            \<and> Mapping.lookup (effects st') i = Some sch
            \<and> Mapping.lookup (effects st') i = Mapping.lookup (effects st') (exId body)
            \<and> errors st' = errors st)"
  using assms
  by (simp add: exitOpDef_def exitLet_def fetchResult_no_errors forwardResult_def
        Mapping.lookup_update' addToResults_simps)

theorem body_effect_forwarded_witness:
  "Mapping.is_empty (errors beforeUndeclared)
   \<and> Mapping.lookup (effects beforeUndeclared) (exId (QuintInt 2 1))
       = Some (toScheme undeclaredEnv (ConcreteEffect []))
   \<and> (\<exists>st'. exitOpDef undeclaredEnv 4 (QuintInt 2 1) beforeUndeclared = Inr st'
          \<and> Mapping.lookup (effects st') 4 = Some (toScheme undeclaredEnv (ConcreteEffect [])))
   \<and> (\<exists>st'. exitLet undeclaredEnv 4 (QuintInt 2 1) beforeUndeclared = Inr st'
          \<and> Mapping.lookup (effects st') 4 = Some (toScheme undeclaredEnv (ConcreteEffect [])))"
proof -
  have h1: "Mapping.is_empty (errors beforeUndeclared)"
    by code_simp
  have h2: "Mapping.lookup (effects beforeUndeclared) (exId (QuintInt 2 1))
              = Some (toScheme undeclaredEnv (ConcreteEffect []))"
    by code_simp
  show ?thesis
    using h1 h2 body_effect_forwarded [OF h1 h2, of undeclaredEnv 4] by blast
qed

text \<open>
  C7 as stated fails: in the module \<^verbatim>\<open>var x\<close>, \<^verbatim>\<open>def a = foo(1)\<close>, \<^verbatim>\<open>def b = x\<close>,
  \<^verbatim>\<open>def c = 2\<close>, ... the body of \<open>c\<close> (the literal, identity 7) is resolved to \<open>Pure\<close> without
  error, and the run records nothing for the definition \<open>c\<close> (identity 8): the error of
  \<open>foo\<close> came first, and the rule of a definition is skipped after it.
\<close>

theorem body_effect_forwarded_counterexample:
  "completed (inferEffects undeclaredEnv undeclaredModule (EffectInferrer Mapping.empty))
   \<and> effectAt (inferEffects undeclaredEnv undeclaredModule (EffectInferrer Mapping.empty)) 7
       = Some (toScheme undeclaredEnv (ConcreteEffect []))
   \<and> errorAt (inferEffects undeclaredEnv undeclaredModule (EffectInferrer Mapping.empty)) 7 = None
   \<and> effectAt (inferEffects undeclaredEnv undeclaredModule (EffectInferrer Mapping.empty)) 8 = None"
proof -
  have "completed (inferEffects undeclaredEnv undeclaredModule (EffectInferrer Mapping.empty))"
    by code_simp
  moreover have "effectAt (inferEffects undeclaredEnv undeclaredModule (EffectInferrer Mapping.empty)) 7
       = Some (toScheme undeclaredEnv (ConcreteEffect []))"
    by code_simp
  moreover have "errorAt (inferEffects undeclaredEnv undeclaredModule (EffectInferrer Mapping.empty)) 7 = None"
    by code_simp
  moreover have "effectAt (inferEffects undeclaredEnv undeclaredModule (EffectInferrer Mapping.empty)) 8 = None"
    by code_simp
  ultimately show ?thesis by simp
qed

section \<open>References to state variables\<close>

lemma newInstance_closed:
  assumes "effectVariables sch = []" and "entityVariables sch = []"
    and "compose d [] [] = Inr []"
    and "applySubstitution d [] (effect sch) = Inr (effect sch)"
  shows "newInstance d sch st = Inr (effect sch, st)"
  using assms by (simp add: newInstance_def)

text \<open>
  C6, as amended. The rule of a variable declaration \<open>v\<close> with identity \<open>r\<close> records the
  scheme of the concrete effect with the single component \<open>read\<close> over the entity \<open>{v}\<close>.
  A name reference is exited while the error map is empty; its name is not the name of a
  builtin operator, the lookup table resolves it to \<open>r\<close>, the identity \<open>r\<close> is not 0, and the
  success map still has the scheme of the declaration at \<open>r\<close>. Then the callback records
  the scheme of that same effect at the identity of the name: one \<open>read\<close> component over
  \<open>{v}\<close>, no \<open>update\<close>. The environment is asked that the scheme of this effect quantifies
  no name, and that the empty substitution composes with itself and leaves the effect as
  it is. Nothing is said of a declaration with the identity 0.
\<close>

theorem variable_reference_reads:
  assumes "Mapping.is_empty (errors st)"
    and "builtinSignatures d name = None"
    and "lookupTable d i = Some (LookupDefinition (Some r))"
    and "r \<noteq> 0"
    and "Mapping.lookup (effects st) r = Some (toScheme d (readEffect v r))"
    and "toScheme d (readEffect v r)
           = \<lparr>effect = readEffect v r, effectVariables = [], entityVariables = []\<rparr>"
    and "compose d [] [] = Inr []"
    and "applySubstitution d [] (readEffect v r) = Inr (readEffect v r)"
  shows "Mapping.lookup (effects (exitVar d r v st0)) r = Some (toScheme d (readEffect v r))
       \<and> readEffect v r
           = ConcreteEffect [EffectComponent Read (ConcreteEntity [StateVariable v r])]
       \<and> (\<exists>st'. exitName d i name st = Inr st'
            \<and> Mapping.lookup (effects st') i = Some (toScheme d (readEffect v r))
            \<and> errors st' = errors st)"
proof -
  have fetched: "fetchResult st r = Inr (Inr (toScheme d (readEffect v r)))"
    using assms(1,5) by (simp add: fetchResult_no_errors)
  have "newInstance d (toScheme d (readEffect v r)) st = Inr (readEffect v r, st)"
    using newInstance_closed [of "toScheme d (readEffect v r)" d st] assms(6,7,8) by simp
  then have "effectForName d name i 2 st = Inr (Inr (readEffect v r), st)"
    using assms(2,3,4) fetched by (simp add: effectForName_def)
  then have "exitName d i name st
               = Inr (st\<lparr>effects := Mapping.update i (toScheme d (readEffect v r)) (effects st)\<rparr>)"
    using assms(1) by (simp add: exitName_def schemeResult_def addToResults_simps)
  then show ?thesis
    by (simp add: exitVar_def readEffect_def addToResults_simps)
qed

theorem variable_reference_reads_witness:
  "Mapping.is_empty (errors atNameX)
   \<and> lookupTable undeclaredEnv 5 = Some (LookupDefinition (Some 1))
   \<and> Mapping.lookup (effects atNameX) 1 = Some (toScheme undeclaredEnv (readEffect ''x'' 1))
   \<and> (\<exists>st'. exitName undeclaredEnv 5 ''x'' atNameX = Inr st'
          \<and> Mapping.lookup (effects st') 5 = Some (toScheme undeclaredEnv (readEffect ''x'' 1)))"
proof -
  have h1: "Mapping.is_empty (errors atNameX)"
    by code_simp
  have h2: "builtinSignatures undeclaredEnv ''x'' = None"
    by (simp add: undeclaredEnv_def exampleEnv_def)
  have h3: "lookupTable undeclaredEnv 5 = Some (LookupDefinition (Some 1))"
    by (simp add: undeclaredEnv_def exampleEnv_def)
  have h4: "(1::int) \<noteq> 0"
    by simp
  have h5: "Mapping.lookup (effects atNameX) 1 = Some (toScheme undeclaredEnv (readEffect ''x'' 1))"
    by code_simp
  have h6: "toScheme undeclaredEnv (readEffect ''x'' 1)
              = \<lparr>effect = readEffect ''x'' 1, effectVariables = [], entityVariables = []\<rparr>"
    by (simp add: undeclaredEnv_def exampleEnv_def specToScheme_def)
  have h7: "compose undeclaredEnv [] [] = Inr []"
    by (simp add: undeclaredEnv_def exampleEnv_def specCompose_def)
  have h8: "applySubstitution undeclaredEnv [] (readEffect ''x'' 1) = Inr (readEffect ''x'' 1)"
    by (simp add: undeclaredEnv_def exampleEnv_def specApplySubstitution_def readEffect_def)
  show ?thesis
    using h1 h3 h5 variable_reference_reads [OF h1 h2 h3 h4 h5 h6 h7 h8] by blast
qed

text \<open>
  C6 as stated fails, in two ways. In the module \<^verbatim>\<open>var x\<close>, \<^verbatim>\<open>def a = foo(1)\<close>,
  \<^verbatim>\<open>def b = x\<close>, ... the name \<open>x\<close> (identity 5) resolves to the declaration \<^verbatim>\<open>var x\<close>
  (identity 1), the run completes, and the name has no effect at all: the error of \<open>foo\<close>
  came first, and the rule of a name is skipped after it. In the module \<^verbatim>\<open>var x\<close>,
  \<^verbatim>\<open>def b = x\<close> with the declaration at the identity 0, no error comes before the name \<open>x\<close>
  (identity 1), the declaration has its \<open>read\<close> effect in the success map, and the name
  gets an error instead of an effect: \<^verbatim>\<open>effectForName\<close> tests \<^verbatim>\<open>!id\<close>, and the identity 0 counts
  as a missing one.
\<close>

theorem variable_reference_reads_counterexample:
  "DefVar 1 ''x'' \<in> set undeclaredModule
   \<and> lookupTable undeclaredEnv 5 = Some (LookupDefinition (Some 1))
   \<and> completed (inferEffects undeclaredEnv undeclaredModule (EffectInferrer Mapping.empty))
   \<and> effectAt (inferEffects undeclaredEnv undeclaredModule (EffectInferrer Mapping.empty)) 5 = None
   \<and> DefVar 0 ''x'' \<in> set zeroModule
   \<and> lookupTable zeroEnv 1 = Some (LookupDefinition (Some 0))
   \<and> completed (inferEffects zeroEnv zeroModule (EffectInferrer Mapping.empty))
   \<and> effectAt (inferEffects zeroEnv zeroModule (EffectInferrer Mapping.empty)) 0
       = Some (toScheme zeroEnv (readEffect ''x'' 0))
   \<and> effectAt (inferEffects zeroEnv zeroModule (EffectInferrer Mapping.empty)) 1 = None
   \<and> errorAt (inferEffects zeroEnv zeroModule (EffectInferrer Mapping.empty)) 1 \<noteq> None"
proof -
  have "DefVar 1 ''x'' \<in> set undeclaredModule"
    by (simp add: undeclaredModule_def)
  moreover have "lookupTable undeclaredEnv 5 = Some (LookupDefinition (Some 1))"
    by (simp add: undeclaredEnv_def exampleEnv_def)
  moreover have "completed (inferEffects undeclaredEnv undeclaredModule (EffectInferrer Mapping.empty))"
    by code_simp
  moreover have "effectAt (inferEffects undeclaredEnv undeclaredModule (EffectInferrer Mapping.empty)) 5 = None"
    by code_simp
  moreover have "DefVar 0 ''x'' \<in> set zeroModule"
    by (simp add: zeroModule_def)
  moreover have "lookupTable zeroEnv 1 = Some (LookupDefinition (Some 0))"
    by (simp add: zeroEnv_def exampleEnv_def)
  moreover have "completed (inferEffects zeroEnv zeroModule (EffectInferrer Mapping.empty))"
    by code_simp
  moreover have "effectAt (inferEffects zeroEnv zeroModule (EffectInferrer Mapping.empty)) 0
       = Some (toScheme zeroEnv (readEffect ''x'' 0))"
    by code_simp
  moreover have "effectAt (inferEffects zeroEnv zeroModule (EffectInferrer Mapping.empty)) 1 = None"
    by code_simp
  moreover have "errorAt (inferEffects zeroEnv zeroModule (EffectInferrer Mapping.empty)) 1 \<noteq> None"
    by code_simp
  ultimately show ?thesis by simp
qed

section \<open>A result that is missing\<close>

text \<open>
  C8. When an identity has an entry in neither result map, \<^verbatim>\<open>fetchResult\<close> throws: its
  outcome is the fault \<open>NoResult\<close>, which is not an error tree, and no state comes back, so
  nothing is recorded and no effect is made up. Every rule that fetches passes the fault
  on: the rules of a definition, of a let and of a lambda for their body, the rule of a
  name for the declaration that the lookup table gives, the rule of an application for
  its argument.
\<close>

theorem missing_result_is_a_fault:
  assumes "Mapping.lookup (effects st) i = None"
    and "Mapping.lookup (errors st) i = None"
  shows "fetchResult st i = Inl (NoResult i (location st))
       \<and> (Mapping.is_empty (errors st) \<longrightarrow>
            (\<forall>body. exId body = i \<longrightarrow>
                 exitOpDef d j body st = Inl (NoResult i (location st))
               \<and> exitLet d j body st = Inl (NoResult i (location st))
               \<and> exitLambda d j ps body st = Inl (NoResult i (location st)))
          \<and> (builtinSignatures d n = None \<longrightarrow> lookupTable d k = Some (LookupDefinition (Some i))
               \<longrightarrow> i \<noteq> 0 \<longrightarrow> exitName d k n st = Inl (NoResult i (location st)))
          \<and> (\<forall>a args. exId a = i \<longrightarrow>
                 exitApp d j opcode (a # args) st
                   = Inl (NoResult i (appLocation d j opcode (a # args)))))"
proof -
  have fetch: "fetchResult st i = Inl (NoResult i (location st))"
    using assms by (rule fetchResult_missing)
  have fetch': "fetchResult (st\<lparr>location := loc\<rparr>) i = Inl (NoResult i loc)" for loc
    using assms by (simp add: fetchResult_def)
  show ?thesis
    using fetch fetch'
    by (simp add: exitOpDef_def exitLet_def exitLambda_def exitName_def effectForName_def
          exitApp_def resolveLambda_def)
qed

theorem missing_result_is_a_fault_witness:
  "Mapping.lookup (effects atNameC) 4 = None
   \<and> Mapping.lookup (errors atNameC) 4 = None
   \<and> fetchResult atNameC 4 = Inl (NoResult 4 (location atNameC))
   \<and> exitName forwardEnv 1 ''c'' atNameC = Inl (NoResult 4 (location atNameC))
   \<and> inferEffects forwardEnv forwardModule (EffectInferrer Mapping.empty)
       = Inl (NoResult 4 ''Inferring effect for c'')"
proof -
  have h1: "Mapping.lookup (effects atNameC) 4 = None"
    by code_simp
  have h2: "Mapping.lookup (errors atNameC) 4 = None"
    by code_simp
  have h3: "Mapping.is_empty (errors atNameC)"
    by code_simp
  have h4: "builtinSignatures forwardEnv ''c'' = None"
    by (simp add: forwardEnv_def exampleEnv_def)
  have h5: "lookupTable forwardEnv 1 = Some (LookupDefinition (Some 4))"
    by (simp add: forwardEnv_def exampleEnv_def)
  have run: "inferEffects forwardEnv forwardModule (EffectInferrer Mapping.empty)
               = Inl (NoResult 4 ''Inferring effect for c'')"
    by code_simp
  show ?thesis
    using h1 h2 h3 h4 h5 run
      missing_result_is_a_fault [OF h1 h2, where d = forwardEnv and n = "''c''" and k = 1]
    by simp
qed

section \<open>Lambdas with an operator-valued result\<close>

lemma addToResults_location: "location (addToResults d i r st) = location st"
  by (simp add: addToResults_def split: sum.splits)

lemma lambdaParams_location:
  "lambdaParams d ps st = Inr (rs, st1) \<Longrightarrow> location st1 = location st"
proof (induction ps arbitrary: st rs st1)
  case Nil
  then show ?case by simp
next
  case (Cons p ps)
  then show ?case
    by (fastforce simp: addToResults_location split: sum.splits prod.splits
          dest!: newInstance_onlyCounter onlyCounter_fields)
qed

lemma lambdaParams_errors:
  "lambdaParams d ps st = Inr (rs, st1) \<Longrightarrow> lefts rs = [] \<Longrightarrow> errors st1 = errors st"
proof (induction ps arbitrary: st rs st1)
  case Nil
  then show ?case by simp
next
  case (Cons p ps)
  then show ?case
    by (fastforce simp: schemeResult_def addToResults_simps split: sum.splits prod.splits
          dest!: newInstance_onlyCounter onlyCounter_fields)
qed

lemma resolveLambda_resolved:
  assumes "resolveLambda d ps body st = Inr (Inr e, st1)"
  shows "errors st1 = errors st \<and> location st1 = location st"
proof -
  obtain exprResult rs where
    params: "lambdaParams d ps st = Inr (rs, st1)" and
    eff: "lambdaEffect d exprResult rs st1 = Inr (Inr e)"
    using assms by (auto simp: resolveLambda_def split: sum.splits prod.splits)
  have "lefts rs = []"
    using eff by (auto simp: lambdaEffect_def mergeInMany_def split: sum.splits if_splits)
  then show ?thesis
    using params by (simp add: lambdaParams_errors lambdaParams_location)
qed

lemma exitLambda_operator_result:
  assumes "Mapping.is_empty (errors st)"
    and "resolveLambda d ps body st = Inr (Inr (ArrowEffect es (ArrowEffect es' res')), st1)"
  shows "exitLambda d i ps body st =
           Inr (st1\<lparr>errors := Mapping.update (exId body)
                        (buildErrorTree d (location st)
                           (Single (buildErrorLeaf d (location st) ''Result cannot be an opperator'')))
                        (errors st),
                     effects := Mapping.update i
                        \<lparr>effect = ArrowEffect es (ArrowEffect es' res'),
                          effectVariables = fst (nonFreeNames d es),
                          entityVariables = snd (nonFreeNames d es)\<rparr>
                        (effects st1)\<rparr>)"
  using assms resolveLambda_resolved [OF assms(2)]
  by (simp add: exitLambda_def operatorResultError_def addToResults_simps)

lemma lambdaParams_substitutions:
  "lambdaParams d ps st = Inr (rs, st1) \<Longrightarrow> substitutions st1 = substitutions st"
proof (induction ps arbitrary: st rs st1)
  case Nil
  then show ?case by simp
next
  case (Cons p ps)
  then show ?case
    by (fastforce simp: addToResults_def split: sum.splits prod.splits
          dest!: newInstance_onlyCounter onlyCounter_fields)
qed

lemma newInstanceUnbound_closed:
  assumes "effectVariables sch = []" and "entityVariables sch = []"
    and "compose d [] [] = Inr []"
    and "applySubstitution d [] (effect sch) = Inr (effect sch)"
  shows "newInstanceUnbound d sch = Inr (effect sch)"
  using assms by (simp add: newInstanceUnbound_def)

text \<open>
  With an empty error map, parameters that are recorded again without error and a body
  whose scheme quantifies no name, the first half of \<^verbatim>\<open>exitLambda\<close> resolves the lambda to an
  arrow over what the running substitution makes of the effect of the body.
\<close>

lemma resolveLambda_closed_body:
  assumes "Mapping.is_empty (errors st)"
    and "Mapping.lookup (effects st) (exId body) = Some sch"
    and "effectVariables sch = []" and "entityVariables sch = []"
    and "applySubstitution d (substitutions st) (effect sch) = Inr (ArrowEffect qs q)"
    and "lambdaParams d ps st = Inr (rs, st1)" and "mergeInMany rs = Inr es"
    and "compose d [] [] = Inr []"
    and "applySubstitution d [] (ArrowEffect es (effect sch)) = Inr (ArrowEffect es (effect sch))"
    and "applySubstitution d (substitutions st) (ArrowEffect es (effect sch)) = Inr e"
    and "substitutesResult d"
  shows "\<exists>es'. resolveLambda d ps body st = Inr (Inr (ArrowEffect es' (ArrowEffect qs q)), st1)"
proof -
  have fetch: "fetchResult st (exId body) = Inr (Inr sch)"
    using assms(1,2) by (simp add: fetchResult_no_errors)
  have inst: "newInstanceUnbound d (sch\<lparr>effect := ArrowEffect es (effect sch)\<rparr>)
                = Inr (ArrowEffect es (effect sch))"
    using newInstanceUnbound_closed [of "sch\<lparr>effect := ArrowEffect es (effect sch)\<rparr>" d]
      assms(3,4,8,9) by simp
  have subs: "substitutions st1 = substitutions st"
    using assms(6) by (rule lambdaParams_substitutions)
  obtain es' r' where e: "e = ArrowEffect es' r'"
    and r': "applySubstitution d (substitutions st) (effect sch) = Inr r'"
    using assms(10,11) unfolding substitutesResult_def by blast
  have "r' = ArrowEffect qs q"
    using r' assms(5) by simp
  then have "lambdaEffect d (Inr sch) rs st1 = Inr (Inr (ArrowEffect es' (ArrowEffect qs q)))"
    using inst subs assms(7,10) e by (simp add: lambdaEffect_def)
  then show ?thesis
    using fetch assms(6) by (simp add: resolveLambda_def)
qed

text \<open>
  When the scheme of the body quantifies a name, \<^verbatim>\<open>newInstance\<close> is reached through an
  undefined \<^verbatim>\<open>this\<close> and the rule throws, with an empty error map and whatever the effect
  of the body is. The two other calls of \<^verbatim>\<open>newInstance\<close> on fetched results, in \<^verbatim>\<open>exitApp\<close>
  and for the parameters of the lambda, go through an arrow function and keep \<^verbatim>\<open>this\<close>.
\<close>

lemma exitLambda_quantified_body:
  assumes "Mapping.is_empty (errors st)"
    and "Mapping.lookup (effects st) (exId body) = Some sch"
    and "effectVariables sch \<noteq> [] \<or> entityVariables sch \<noteq> []"
    and "lambdaParams d ps st = Inr (rs, st1)" and "mergeInMany rs = Inr es"
  shows "exitLambda d i ps body st = Inl UnboundThis"
proof -
  have fetch: "fetchResult st (exId body) = Inr (Inr sch)"
    using assms(1,2) by (simp add: fetchResult_no_errors)
  have "newInstanceUnbound d (sch\<lparr>effect := ArrowEffect es (effect sch)\<rparr>) = Inl UnboundThis"
    using assms(3) by (auto simp: newInstanceUnbound_def)
  then have "lambdaEffect d (Inr sch) rs st1 = Inl UnboundThis"
    using assms(5) by (simp add: lambdaEffect_def)
  then have "resolveLambda d ps body st = Inl UnboundThis"
    using fetch assms(4) by (simp add: resolveLambda_def)
  then show ?thesis
    using assms(1) by (simp add: exitLambda_def)
qed

lemma exampleEnv_substitutesResult: "substitutesResult (exampleEnv table)"
  by (auto simp: substitutesResult_def exampleEnv_def specApplySubstitution_def split: if_splits)

text \<open>
  C4, as amended. A lambda is exited while the error map is empty; its parameters are
  recorded again without fault or error; its body has a scheme in the success map, which
  quantifies no name; and the effect of the body resolves, under the running
  substitution, to an arrow. Then the callback records the error "Result cannot be an
  opperator", and records it at the identity of the body: this is the only key of the
  error map, so the lambda itself has no error unless it shares the identity of its body.
  The substitution module is asked four things: the empty substitution composes with
  itself, it leaves the arrow of the lambda as it is, the running substitution resolves
  the arrow of the lambda without error, and substituting in an arrow substitutes in its
  result. Nothing is said of a body whose scheme quantifies a name.
\<close>

theorem operator_valued_result:
  assumes "Mapping.is_empty (errors st)"
    and "Mapping.lookup (effects st) (exId body) = Some sch"
    and "effectVariables sch = []" and "entityVariables sch = []"
    and "applySubstitution d (substitutions st) (effect sch) = Inr (ArrowEffect qs q)"
    and "lambdaParams d ps st = Inr (rs, st1)" and "mergeInMany rs = Inr es"
    and "compose d [] [] = Inr []"
    and "applySubstitution d [] (ArrowEffect es (effect sch)) = Inr (ArrowEffect es (effect sch))"
    and "applySubstitution d (substitutions st) (ArrowEffect es (effect sch)) = Inr e"
    and "substitutesResult d"
  shows "\<exists>st'. exitLambda d i ps body st = Inr st'
           \<and> Mapping.lookup (errors st') (exId body) =
               Some (buildErrorTree d (location st)
                 (Single (buildErrorLeaf d (location st) ''Result cannot be an opperator'')))
           \<and> Mapping.keys (errors st') = {exId body}
           \<and> (i \<noteq> exId body \<longrightarrow> Mapping.lookup (errors st') i = None)"
proof -
  obtain es' where res:
    "resolveLambda d ps body st = Inr (Inr (ArrowEffect es' (ArrowEffect qs q)), st1)"
    using resolveLambda_closed_body [OF assms] by blast
  have "Mapping.keys (errors st) = {}"
    using assms(1) by (simp add: Mapping.is_empty_def)
  then show ?thesis
    using exitLambda_operator_result [OF assms(1) res, of i] assms(1)
    by (simp add: Mapping.lookup_update' is_empty_lookup)
qed

theorem operator_valued_result_witness:
  "Mapping.is_empty (errors beforeExitG)
   \<and> Mapping.lookup (effects beforeExitG) (exId (QuintName 6 ''f''))
       = Some \<lparr>effect = ArrowEffect [VariableEffect ''e0''] (VariableEffect ''e0''),
               effectVariables = [], entityVariables = []\<rparr>
   \<and> applySubstitution operatorResultEnv (substitutions beforeExitG)
        (ArrowEffect [VariableEffect ''e0''] (VariableEffect ''e0''))
       = Inr (ArrowEffect [VariableEffect ''e0''] (VariableEffect ''e0''))
   \<and> (\<exists>st'. exitLambda operatorResultEnv 7 [QuintLambdaParameter 5 ''q''] (QuintName 6 ''f'')
               beforeExitG = Inr st'
          \<and> Mapping.keys (errors st') = {6}
          \<and> Mapping.lookup (errors st') 7 = None)"
proof -
  let ?sch = "\<lparr>effect = ArrowEffect [VariableEffect ''e0''] (VariableEffect ''e0''),
               effectVariables = [], entityVariables = []\<rparr>"
  have h1: "Mapping.is_empty (errors beforeExitG)"
    by code_simp
  have h2: "Mapping.lookup (effects beforeExitG) (exId (QuintName 6 ''f'')) = Some ?sch"
    by code_simp
  have h3: "effectVariables ?sch = []" and h4: "entityVariables ?sch = []"
    by simp_all
  have h5: "applySubstitution operatorResultEnv (substitutions beforeExitG) (effect ?sch)
              = Inr (ArrowEffect [VariableEffect ''e0''] (VariableEffect ''e0''))"
    by code_simp
  have "map_sum id fst (lambdaParams operatorResultEnv [QuintLambdaParameter 5 ''q''] beforeExitG)
          = Inr [Inr (VariableEffect ''e_q_5'')]"
    by code_simp
  then obtain st1 where h6:
    "lambdaParams operatorResultEnv [QuintLambdaParameter 5 ''q''] beforeExitG
       = Inr ([Inr (VariableEffect ''e_q_5'')], st1)"
    by (cases "lambdaParams operatorResultEnv [QuintLambdaParameter 5 ''q''] beforeExitG") auto
  have h7: "mergeInMany [Inr (VariableEffect ''e_q_5'') :: ErrorTree + Effect]
              = Inr [VariableEffect ''e_q_5'']"
    by (simp add: mergeInMany_def)
  have h8: "compose operatorResultEnv [] [] = Inr []"
    by (simp add: operatorResultEnv_def exampleEnv_def specCompose_def)
  have h9: "applySubstitution operatorResultEnv []
              (ArrowEffect [VariableEffect ''e_q_5''] (effect ?sch))
            = Inr (ArrowEffect [VariableEffect ''e_q_5''] (effect ?sch))"
    by code_simp
  have h10: "applySubstitution operatorResultEnv (substitutions beforeExitG)
               (ArrowEffect [VariableEffect ''e_q_5''] (effect ?sch))
             = Inr (ArrowEffect [VariableEffect ''e_q_5'']
                      (ArrowEffect [VariableEffect ''e0''] (VariableEffect ''e0'')))"
    by code_simp
  have h11: "substitutesResult operatorResultEnv"
    unfolding operatorResultEnv_def by (rule exampleEnv_substitutesResult)
  show ?thesis
    using h1 h2 h5 operator_valued_result [OF h1 h2 h3 h4 h5 h6 h7 h8 h9 h10 h11, of 7]
    by auto
qed

text \<open>
  C4 as stated fails, in two ways. In the module \<^verbatim>\<open>def f(p) = p\<close>, \<^verbatim>\<open>def g(q) = ((r) => f)\<close>
  the body of the outer lambda of \<open>g\<close> is the inner lambda (identity 8). Its inferred effect
  is an arrow, and stays one under the running substitution of the end of the run, which
  is empty; the run completes and records no error at the identity 8. The inner lambda had
  the error of its own body first, and the rule of the outer lambda was skipped after it.
  In the module \<^verbatim>\<open>def g(q) = ((r) => 1)\<close> the body of the outer lambda is the inner lambda
  (identity 4), whose inferred effect is an arrow and whose scheme quantifies the name of
  \<open>r\<close>; the error map is empty at the exit of the outer lambda, and the rule throws: the
  run ends in the fault and records no error.
\<close>

theorem operator_valued_result_counterexample:
  "completed (inferEffects nestedLambdaEnv nestedLambdaModule (EffectInferrer Mapping.empty))
   \<and> effectAt (inferEffects nestedLambdaEnv nestedLambdaModule (EffectInferrer Mapping.empty)) 8
       = Some \<lparr>effect = ArrowEffect [VariableEffect ''e_r_6'']
                         (ArrowEffect [VariableEffect ''e0''] (VariableEffect ''e0'')),
               effectVariables = [''e_r_6''], entityVariables = []\<rparr>
   \<and> substitutions
        (finalState (walkDefinitions nestedLambdaEnv nestedLambdaModule (EffectInferrer Mapping.empty)))
       = []
   \<and> applySubstitution nestedLambdaEnv []
        (ArrowEffect [VariableEffect ''e_r_6'']
           (ArrowEffect [VariableEffect ''e0''] (VariableEffect ''e0'')))
       = Inr (ArrowEffect [VariableEffect ''e_r_6'']
                (ArrowEffect [VariableEffect ''e0''] (VariableEffect ''e0'')))
   \<and> errorAt (inferEffects nestedLambdaEnv nestedLambdaModule (EffectInferrer Mapping.empty)) 8 = None
   \<and> Mapping.is_empty (errors beforeExitOuter)
   \<and> Mapping.lookup (effects beforeExitOuter) 4
       = Some \<lparr>effect = ArrowEffect [VariableEffect ''e_r_2''] (ConcreteEffect []),
               effectVariables = [''e_r_2''], entityVariables = []\<rparr>
   \<and> exitLambda lambdaBodyEnv 5 [QuintLambdaParameter 1 ''q'']
        (QuintLambda 4 [QuintLambdaParameter 2 ''r''] (QuintInt 3 1)) beforeExitOuter
       = Inl UnboundThis
   \<and> inferEffects lambdaBodyEnv lambdaBodyModule (EffectInferrer Mapping.empty) = Inl UnboundThis"
proof -
  have "completed (inferEffects nestedLambdaEnv nestedLambdaModule (EffectInferrer Mapping.empty))"
    by code_simp
  moreover have
    "effectAt (inferEffects nestedLambdaEnv nestedLambdaModule (EffectInferrer Mapping.empty)) 8
       = Some \<lparr>effect = ArrowEffect [VariableEffect ''e_r_6'']
                         (ArrowEffect [VariableEffect ''e0''] (VariableEffect ''e0'')),
               effectVariables = [''e_r_6''], entityVariables = []\<rparr>"
    by code_simp
  moreover have
    "substitutions
        (finalState (walkDefinitions nestedLambdaEnv nestedLambdaModule (EffectInferrer Mapping.empty)))
       = []"
    by code_simp
  moreover have
    "applySubstitution nestedLambdaEnv []
        (ArrowEffect [VariableEffect ''e_r_6'']
           (ArrowEffect [VariableEffect ''e0''] (VariableEffect ''e0'')))
       = Inr (ArrowEffect [VariableEffect ''e_r_6'']
                (ArrowEffect [VariableEffect ''e0''] (VariableEffect ''e0'')))"
    by code_simp
  moreover have
    "errorAt (inferEffects nestedLambdaEnv nestedLambdaModule (EffectInferrer Mapping.empty)) 8 = None"
    by code_simp
  moreover have "Mapping.is_empty (errors beforeExitOuter)"
    by code_simp
  moreover have
    "Mapping.lookup (effects beforeExitOuter) 4
       = Some \<lparr>effect = ArrowEffect [VariableEffect ''e_r_2''] (ConcreteEffect []),
               effectVariables = [''e_r_2''], entityVariables = []\<rparr>"
    by code_simp
  moreover have
    "exitLambda lambdaBodyEnv 5 [QuintLambdaParameter 1 ''q'']
        (QuintLambda 4 [QuintLambdaParameter 2 ''r''] (QuintInt 3 1)) beforeExitOuter
       = Inl UnboundThis"
    by code_simp
  moreover have
    "inferEffects lambdaBodyEnv lambdaBodyModule (EffectInferrer Mapping.empty) = Inl UnboundThis"
    by code_simp
  ultimately show ?thesis by simp
qed




section \<open>Where the walker writes\<close>

lemma writes_refl [simp]: "writes W R st st"
  by (auto simp: writes_def)

lemma writes_trans:
  "writes W1 R1 a b \<Longrightarrow> writes W2 R2 b c \<Longrightarrow> writes (W1 \<union> W2) (R1 \<union> R2) a c"
  by (auto simp: writes_def)

lemma writes_mono:
  "writes W R a b \<Longrightarrow> W \<subseteq> W' \<Longrightarrow> R \<subseteq> R' \<Longrightarrow> writes W' R' a b"
  by (auto simp: writes_def)

lemma writes_known: "writes W R a b \<Longrightarrow> i \<notin> known a \<Longrightarrow> i \<notin> W \<Longrightarrow> i \<notin> known b"
  by (auto simp: writes_def)

lemma same_maps_writes:
  "effects b = effects a \<Longrightarrow> errors b = errors a \<Longrightarrow> writes {} {} a b"
  by (simp add: writes_def known_def inBoth_def)

lemma onlyCounter_writes: "onlyCounter a b \<Longrightarrow> writes {} {} a b"
  by (auto dest: onlyCounter_fields intro: same_maps_writes)

lemma addToResults_writes: "writes {i} {i} st (addToResults d i r st)"
  by (cases r) (auto simp: writes_def known_def inBoth_def addToResults_simps)

lemma addToResults_fresh: "i \<notin> known st \<Longrightarrow> writes {i} {} st (addToResults d i r st)"
  by (cases r) (auto simp: writes_def known_def inBoth_def addToResults_simps)

lemma enterExpr_writes: "writes {} {} st (enterExpr d e st)"
  by (simp add: enterExpr_def same_maps_writes)

lemma enterLambda_writes: "writes (paramId ` set ps) (paramId ` set ps) st (enterLambda d ps st)"
proof (induction ps arbitrary: st)
  case Nil
  then show ?case by simp
next
  case (Cons p ps)
  obtain varName st1 where v:
    "(if paramName p = ''_'' then freshVar ''e'' st
      else (''e_'' @ paramName p @ ''_'' @ bigintToString (paramId p), st)) = (varName, st1)"
    by (metis surj_pair)
  have "onlyCounter st st1"
    using v by (auto split: if_splits dest: freshVar_onlyCounter)
  then have a: "writes {} {} st st1"
    by (rule onlyCounter_writes)
  have b: "writes {paramId p} {paramId p} st1
             (addToResults d (paramId p) (Inr (toScheme d (VariableEffect varName))) st1)"
    by (rule addToResults_writes)
  have c: "writes (paramId ` set ps) (paramId ` set ps)
             (addToResults d (paramId p) (Inr (toScheme d (VariableEffect varName))) st1)
             (enterLambda d (p # ps) st)"
    using Cons.IH [of "addToResults d (paramId p) (Inr (toScheme d (VariableEffect varName))) st1"] v
    by simp
  show ?case
    using writes_trans [OF writes_trans [OF a b] c] by simp
qed

lemma republish_writes:
  "republish d s n eis st = Inr st' \<Longrightarrow> writes (snd ` set eis) (snd ` set eis) st st'"
proof (induction eis arbitrary: st)
  case Nil
  then show ?case by simp
next
  case (Cons ei eis)
  obtain e i where ei: "ei = (e, i)"
    by (cases ei)
  let ?st1 = "addToResults d i (schemeResult d (applySubstitution d s e)) st"
  have run: "republish d s n eis ?st1 = Inr st'"
    using Cons.prems ei by (simp split: if_splits)
  have "writes ({i} \<union> snd ` set eis) ({i} \<union> snd ` set eis) st st'"
    using writes_trans [OF addToResults_writes Cons.IH [OF run]] .
  then show ?case
    using ei by simp
qed

lemma lambdaParams_writes:
  "lambdaParams d ps st = Inr (rs, st') \<Longrightarrow> writes (paramId ` set ps) (paramId ` set ps) st st'"
proof (induction ps arbitrary: st rs)
  case Nil
  then show ?case by simp
next
  case (Cons p ps)
  from Cons.prems have
    "\<exists>result st1 rs'. onlyCounter st st1
       \<and> lambdaParams d ps (addToResults d (paramId p) (schemeResult d result) st1) = Inr (rs', st')"
    by (auto split: sum.splits prod.splits dest!: newInstance_onlyCounter)
      (blast intro: onlyCounter_refl)+
  then obtain result st1 rs' where
    step: "onlyCounter st st1" and
    rest: "lambdaParams d ps (addToResults d (paramId p) (schemeResult d result) st1) = Inr (rs', st')"
    by blast
  have "writes ({} \<union> {paramId p} \<union> paramId ` set ps) ({} \<union> {paramId p} \<union> paramId ` set ps) st st'"
    using writes_trans [OF writes_trans [OF onlyCounter_writes [OF step] addToResults_writes]
        Cons.IH [OF rest]] .
  then show ?case by simp
qed


lemma known_same: "effects b = effects a \<Longrightarrow> errors b = errors a \<Longrightarrow> known b = known a"
  by (simp add: known_def)

lemma exitLiteral_writes: "i \<notin> known st \<Longrightarrow> writes {i} {} st (exitLiteral d i st)"
  unfolding exitLiteral_def by (rule addToResults_fresh)

lemma exitConst_writes: "i \<notin> known st \<Longrightarrow> writes {i} {} st (exitConst d i ty st)"
  unfolding exitConst_def by (cases ty) (simp_all add: addToResults_fresh)

lemma exitVar_writes: "i \<notin> known st \<Longrightarrow> writes {i} {} st (exitVar d i n st)"
  unfolding exitVar_def by (rule addToResults_fresh)

lemma exitName_writes:
  assumes "exitName d i n st = Inr st'" and "i \<notin> known st"
  shows "writes {i} {} st st'"
proof (cases "Mapping.is_empty (errors st)")
  case False
  then show ?thesis using assms(1) by (simp add: exitName_def)
next
  case True
  then obtain r st1 where name: "effectForName d n i 2 st = Inr (r, st1)"
    and st': "st' = addToResults d i (schemeResult d r) st1"
    using assms(1) by (auto simp: exitName_def split: sum.splits prod.splits)
  have oc: "onlyCounter st st1"
    using name by (rule effectForName_onlyCounter)
  then have "i \<notin> known st1"
    using assms(2) known_same [of st1 st] by (auto dest: onlyCounter_fields)
  then have "writes {i} {} st1 st'"
    unfolding st' by (rule addToResults_fresh)
  then show ?thesis
    using writes_trans [OF onlyCounter_writes [OF oc]] by fastforce
qed

lemma exitOpDef_writes:
  assumes "exitOpDef d i body st = Inr st'" and "i \<notin> known st"
  shows "writes {i} {} st st'"
  using assms
  by (auto simp: exitOpDef_def split: if_splits sum.splits intro: addToResults_fresh)

lemma exitLet_writes:
  assumes "exitLet d i body st = Inr st'" and "i \<notin> known st"
  shows "writes {i} {} st st'"
  using assms
  by (auto simp: exitLet_def split: if_splits sum.splits intro: addToResults_fresh)

lemma applySignature_writes:
  assumes "applySignature d sig pr re argIds st = Inr (r, st')"
  shows "writes (set argIds) (set argIds) st st'"
proof -
  have rep: "republish d s n (zip es argIds) (st\<lparr>substitutions := s\<rparr>) = Inr st2
               \<Longrightarrow> writes (set argIds) (set argIds) st st2" for s n es st2
  proof -
    assume run: "republish d s n (zip es argIds) (st\<lparr>substitutions := s\<rparr>) = Inr st2"
    have a: "writes {} {} st (st\<lparr>substitutions := s\<rparr>)"
      by (simp add: same_maps_writes)
    have sub: "snd ` set (zip es argIds) \<subseteq> set argIds"
      by (auto dest: set_zip_rightD)
    show ?thesis
      using writes_mono [OF writes_trans [OF a republish_writes [OF run]]] sub by simp
  qed
  have upd: "writes (set argIds) (set argIds) st (st\<lparr>substitutions := s\<rparr>)" for s
    by (rule writes_mono [OF same_maps_writes]) simp_all
  show ?thesis
    using assms rep upd
    by (auto simp: applySignature_def Let_def split: sum.splits)
qed

lemma exitApp_steps:
  assumes "exitApp d i opcode args st = Inr st'" and "Mapping.is_empty (errors st)"
  shows "\<exists>rs st1 v st2 r st3.
           instantiateResults d (map exId args) (st\<lparr>location := appLocation d i opcode args\<rparr>)
             = Inr (rs, st1)
         \<and> freshVar ''e'' st1 = (v, st2)
         \<and> effectForName d opcode i (length args) st2 = Inr (r, st3)
         \<and> (case r of
               Inl err \<Rightarrow> \<exists>res. st' = addToResults d i res st3
             | Inr signature \<Rightarrow>
                 (\<exists>r4 st4 res.
                    applySignature d signature (mergeInMany rs) (VariableEffect v)
                      (map exId args) st3 = Inr (r4, st4)
                  \<and> st' = addToResults d i res st4))"
proof -
  let ?st0 = "st\<lparr>location := appLocation d i opcode args\<rparr>"
  obtain rs st1 where inst: "instantiateResults d (map exId args) ?st0 = Inr (rs, st1)"
    using assms by (cases "instantiateResults d (map exId args) ?st0") (auto simp: exitApp_def)
  obtain v st2 where fresh: "freshVar ''e'' st1 = (v, st2)"
    by (cases "freshVar ''e'' st1")
  obtain r st3 where name: "effectForName d opcode i (length args) st2 = Inr (r, st3)"
    using assms inst fresh
    by (cases "effectForName d opcode i (length args) st2") (auto simp: exitApp_def)
  have "case r of
          Inl err \<Rightarrow> \<exists>res. st' = addToResults d i res st3
        | Inr signature \<Rightarrow>
            (\<exists>r4 st4 res.
               applySignature d signature (mergeInMany rs) (VariableEffect v)
                 (map exId args) st3 = Inr (r4, st4)
             \<and> st' = addToResults d i res st4)"
  proof (cases r)
    case (Inl err)
    then show ?thesis
      using assms inst fresh name by (auto simp: exitApp_def)
  next
    case (Inr signature)
    show ?thesis
    proof (cases "applySignature d signature (mergeInMany rs) (VariableEffect v)
                    (map exId args) st3")
      case (Inl f)
      then show ?thesis
        using assms inst fresh name Inr by (simp add: exitApp_def)
    next
      case inner: (Inr pair)
      obtain r4 st4 where pair: "pair = (r4, st4)"
        by (cases pair)
      show ?thesis
        using assms inst fresh name Inr inner pair
        by (cases r4) (auto simp: exitApp_def)
    qed
  qed
  then show ?thesis
    using inst fresh name by blast
qed

lemma exitApp_writes:
  assumes "exitApp d i opcode args st = Inr st'"
    and "i \<notin> known st" and "i \<notin> exId ` set args"
  shows "writes (insert i (exId ` set args)) (exId ` set args) st st'"
proof (cases "Mapping.is_empty (errors st)")
  case False
  then have "st' = st" using assms(1) by (simp add: exitApp_def)
  then show ?thesis by simp
next
  case True
  let ?st0 = "st\<lparr>location := appLocation d i opcode args\<rparr>"
  from exitApp_steps [OF assms(1) True] obtain rs st1 v st2 r st3 where
    inst: "instantiateResults d (map exId args) ?st0 = Inr (rs, st1)" and
    fresh: "freshVar ''e'' st1 = (v, st2)" and
    name: "effectForName d opcode i (length args) st2 = Inr (r, st3)" and
    last: "case r of
             Inl err \<Rightarrow> \<exists>res. st' = addToResults d i res st3
           | Inr signature \<Rightarrow>
               (\<exists>r4 st4 res.
                  applySignature d signature (mergeInMany rs) (VariableEffect v)
                    (map exId args) st3 = Inr (r4, st4)
                \<and> st' = addToResults d i res st4)"
    by blast
  have "onlyCounter ?st0 st3"
    using instantiateResults_onlyCounter [OF inst] freshVar_onlyCounter [OF fresh]
      effectForName_onlyCounter [OF name]
    by (blast intro: onlyCounter_trans)
  then have maps: "effects st3 = effects st" "errors st3 = errors st"
    by (auto dest: onlyCounter_fields)
  then have w03: "writes {} {} st st3"
    by (simp add: same_maps_writes)
  have k3: "i \<notin> known st3"
    using assms(2) maps by (simp add: known_def)
  show ?thesis
  proof (cases r)
    case (Inl err)
    then obtain res where "st' = addToResults d i res st3"
      using last by auto
    then have "writes {i} {} st3 st'"
      using k3 by (simp add: addToResults_fresh)
    then have "writes ({} \<union> {i}) ({} \<union> {}) st st'"
      by (rule writes_trans [OF w03])
    then show ?thesis
      by (rule writes_mono) auto
  next
    case (Inr signature)
    then obtain r4 st4 res where
      sig: "applySignature d signature (mergeInMany rs) (VariableEffect v) (map exId args) st3
              = Inr (r4, st4)" and
      st': "st' = addToResults d i res st4"
      using last by auto
    have w34: "writes (exId ` set args) (exId ` set args) st3 st4"
      using applySignature_writes [OF sig] by simp
    have k4: "i \<notin> known st4"
      using writes_known [OF w34 k3 assms(3)] .
    have w45: "writes {i} {} st4 st'"
      unfolding st' using k4 by (rule addToResults_fresh)
    have "writes ({} \<union> exId ` set args \<union> {i}) ({} \<union> exId ` set args \<union> {}) st st'"
      by (rule writes_trans [OF writes_trans [OF w03 w34] w45])
    then show ?thesis
      by (rule writes_mono) auto
  qed
qed

lemma resolveLambda_writes:
  assumes "resolveLambda d ps body st = Inr (r, st1)"
  shows "writes (paramId ` set ps) (paramId ` set ps) st st1"
proof -
  obtain exprResult where "fetchResult st (exId body) = Inr exprResult"
    using assms by (cases "fetchResult st (exId body)") (auto simp: resolveLambda_def)
  then obtain rs where "lambdaParams d ps st = Inr (rs, st1)"
    using assms
    by (cases "lambdaParams d ps st")
      (auto simp: resolveLambda_def split: sum.splits)
  then show ?thesis
    by (rule lambdaParams_writes)
qed

lemma exitLambda_steps:
  assumes "exitLambda d i ps body st = Inr st'" and "Mapping.is_empty (errors st)"
  shows "\<exists>r st1 st2 res.
           resolveLambda d ps body st = Inr (r, st1)
         \<and> (st2 = st1 \<or> (\<exists>res2. st2 = addToResults d (exId body) res2 st1))
         \<and> st' = addToResults d i res st2"
proof -
  obtain r st1 where res: "resolveLambda d ps body st = Inr (r, st1)"
    using assms
    by (cases "resolveLambda d ps body st") (auto simp: exitLambda_def)
  show ?thesis
  proof (cases r)
    case (Inl err)
    then have "st' = addToResults d i (Inl err) st1"
      using assms res by (simp add: exitLambda_def)
    then show ?thesis
      using res by blast
  next
    case (Inr e)
    show ?thesis
    proof (cases e)
      case (ConcreteEffect cs)
      then show ?thesis using assms res Inr by (simp add: exitLambda_def)
    next
      case (VariableEffect n)
      then show ?thesis using assms res Inr by (simp add: exitLambda_def)
    next
      case (ArrowEffect es result)
      then show ?thesis
        using assms res Inr
        by (cases result) (auto simp: exitLambda_def)
    qed
  qed
qed

lemma exitLambda_writes:
  assumes "exitLambda d i ps body st = Inr st'"
    and "i \<notin> known st" and "i \<notin> paramId ` set ps" and "i \<noteq> exId body"
  shows "writes (insert i (insert (exId body) (paramId ` set ps)))
           (insert (exId body) (paramId ` set ps)) st st'"
proof (cases "Mapping.is_empty (errors st)")
  case False
  then have "st' = st" using assms(1) by (simp add: exitLambda_def)
  then show ?thesis by simp
next
  case True
  from exitLambda_steps [OF assms(1) True] obtain r st1 st2 res where
    res: "resolveLambda d ps body st = Inr (r, st1)" and
    mid: "st2 = st1 \<or> (\<exists>res2. st2 = addToResults d (exId body) res2 st1)" and
    st': "st' = addToResults d i res st2"
    by blast
  have w01: "writes (paramId ` set ps) (paramId ` set ps) st st1"
    using res by (rule resolveLambda_writes)
  have k1: "i \<notin> known st1"
    using writes_known [OF w01 assms(2,3)] .
  have w12: "writes {exId body} {exId body} st1 st2"
    using mid by (auto simp: addToResults_writes)
  have k2: "i \<notin> known st2"
    using writes_known [OF w12 k1] assms(4) by simp
  have w23: "writes {i} {} st2 st'"
    unfolding st' using k2 by (rule addToResults_fresh)
  have "writes (paramId ` set ps \<union> {exId body} \<union> {i}) (paramId ` set ps \<union> {exId body} \<union> {}) st st'"
    by (rule writes_trans [OF writes_trans [OF w01 w12] w23])
  then show ?thesis
    by (rule writes_mono) auto
qed

section \<open>The two result maps over a whole run\<close>

lemma exId_exprIds: "exId e \<in> set (exprIds e)"
  by (cases e) simp_all

lemma exIds_exprsIds: "exId ` set es \<subseteq> set (exprsIds es)"
  by (induction es) (auto simp: exId_exprIds)

lemma known_enterExpr [simp]: "known (enterExpr d e st) = known st"
  by (simp add: enterExpr_def known_def)

lemma writes_literal:
  assumes "i \<notin> known st"
  shows "writes {i} {} st (exitLiteral d i (enterExpr d e st))"
proof -
  have a: "writes {} {} st (enterExpr d e st)"
    by (rule enterExpr_writes)
  have b: "writes {i} {} (enterExpr d e st) (exitLiteral d i (enterExpr d e st))"
    by (rule exitLiteral_writes) (simp add: assms)
  from writes_trans [OF a b] show ?thesis by simp
qed

lemma walk_writes:
  "walkExpression d e st = Inr st' \<Longrightarrow> distinct (exprIds e)
     \<Longrightarrow> set (exprIds e) \<inter> known st = {}
     \<Longrightarrow> writes (set (exprIds e)) (set (recordedAgain e)) st st'"
  "walkOpDef d od st = Inr st' \<Longrightarrow> distinct (opDefIds od)
     \<Longrightarrow> set (opDefIds od) \<inter> known st = {}
     \<Longrightarrow> writes (set (opDefIds od)) (set (recordedAgainOpDef od)) st st'"
  "walkExpressions d es st = Inr st' \<Longrightarrow> distinct (exprsIds es)
     \<Longrightarrow> set (exprsIds es) \<inter> known st = {}
     \<Longrightarrow> writes (set (exprsIds es)) (set (recordedAgainList es)) st st'"
proof (induction d e st and d od st and d es st arbitrary: st' and st' and st'
    rule: walkExpression_walkOpDef_walkExpressions.induct)
  case (1 d i n st)
  let ?st0 = "enterExpr d (QuintName i n) st"
  have "exitName d i n ?st0 = Inr st'"
    using "1.prems"(1) by simp
  moreover have "i \<notin> known ?st0"
    using "1.prems"(3) by simp
  ultimately have "writes {i} {} ?st0 st'"
    by (rule exitName_writes)
  then have "writes ({} \<union> {i}) ({} \<union> {}) st st'"
    by (rule writes_trans [OF enterExpr_writes])
  then show ?case by simp
next
  case (2 d i b st)
  then show ?case using writes_literal [of i st d "QuintBool i b"] by auto
next
  case (3 d i v st)
  then show ?case using writes_literal [of i st d "QuintInt i v"] by auto
next
  case (4 d i s st)
  then show ?case using writes_literal [of i st d "QuintStr i s"] by auto
next
  case (5 d i opcode args st)
  let ?st0 = "enterExpr d (QuintApp i opcode args) st"
  obtain st1 where args: "walkExpressions d args ?st0 = Inr st1"
    and exit: "exitApp d i opcode args st1 = Inr st'"
    using "5.prems"(1) by (cases "walkExpressions d args ?st0") auto
  have w01: "writes (set (exprsIds args)) (set (recordedAgainList args)) ?st0 st1"
    using "5.IH" [OF args] "5.prems"(2,3) by auto
  have inot: "i \<notin> set (exprsIds args)" "i \<notin> known st"
    using "5.prems"(2,3) by auto
  then have k1: "i \<notin> known st1"
    using writes_known [OF w01] by simp
  have ia: "i \<notin> exId ` set args"
    using inot(1) exIds_exprsIds [of args] by auto
  have w12: "writes (insert i (exId ` set args)) (exId ` set args) st1 st'"
    using exit k1 ia by (rule exitApp_writes)
  have "writes ({} \<union> set (exprsIds args) \<union> insert i (exId ` set args))
          ({} \<union> set (recordedAgainList args) \<union> exId ` set args) st st'"
    by (rule writes_trans [OF writes_trans [OF enterExpr_writes w01] w12])
  then show ?case
    by (rule writes_mono) (use exIds_exprsIds [of args] in auto)
next
  case (6 d i ps body st)
  let ?st0 = "enterExpr d (QuintLambda i ps body) st"
  let ?st1 = "enterLambda d ps ?st0"
  obtain st2 where body: "walkExpression d body ?st1 = Inr st2"
    and exit: "exitLambda d i ps body st2 = Inr st'"
    using "6.prems"(1) by (cases "walkExpression d body ?st1") auto
  have w01: "writes (paramId ` set ps) (paramId ` set ps) ?st0 ?st1"
    by (rule enterLambda_writes)
  have "known ?st1 \<subseteq> known st \<union> paramId ` set ps"
    using w01 by (simp add: writes_def)
  then have disj: "set (exprIds body) \<inter> known ?st1 = {}"
    using "6.prems"(2,3) by (simp add: disjoint_iff) blast
  have w12: "writes (set (exprIds body)) (set (recordedAgain body)) ?st1 st2"
    using "6.IH" [OF body] "6.prems"(2) disj by auto
  have w02: "writes (paramId ` set ps \<union> set (exprIds body))
               (paramId ` set ps \<union> set (recordedAgain body)) ?st0 st2"
    by (rule writes_trans [OF w01 w12])
  have inot: "i \<notin> known ?st0" "i \<notin> paramId ` set ps" "i \<notin> set (exprIds body)"
    using "6.prems"(2,3) by auto
  then have k2: "i \<notin> known st2"
    using writes_known [OF w02] by simp
  have ib: "i \<noteq> exId body"
    using inot(3) exId_exprIds [of body] by auto
  have w23: "writes (insert i (insert (exId body) (paramId ` set ps)))
               (insert (exId body) (paramId ` set ps)) st2 st'"
    using exit k2 inot(2) ib by (rule exitLambda_writes)
  have "writes ({} \<union> (paramId ` set ps \<union> set (exprIds body))
                  \<union> insert i (insert (exId body) (paramId ` set ps)))
          ({} \<union> (paramId ` set ps \<union> set (recordedAgain body))
                  \<union> insert (exId body) (paramId ` set ps)) st st'"
    by (rule writes_trans [OF writes_trans [OF enterExpr_writes w02] w23])
  then show ?case
    by (rule writes_mono) (use exId_exprIds [of body] in auto)
next
  case (7 d i opdef body st)
  let ?st0 = "enterExpr d (QuintLet i opdef body) st"
  obtain st1 where opdef: "walkOpDef d opdef ?st0 = Inr st1"
    and rest: "(case walkExpression d body st1 of Inl f \<Rightarrow> Inl f
                | Inr st2 \<Rightarrow> exitLet d i body st2) = Inr st'"
    using "7.prems"(1) by (cases "walkOpDef d opdef ?st0") auto
  obtain st2 where body: "walkExpression d body st1 = Inr st2"
    and exit: "exitLet d i body st2 = Inr st'"
    using rest by (cases "walkExpression d body st1") auto
  have w01: "writes (set (opDefIds opdef)) (set (recordedAgainOpDef opdef)) ?st0 st1"
    using "7.IH"(1) [OF opdef] "7.prems"(2,3) by auto
  have "known st1 \<subseteq> known st \<union> set (opDefIds opdef)"
    using w01 by (simp add: writes_def)
  then have disj: "set (exprIds body) \<inter> known st1 = {}"
    using "7.prems"(2,3) by auto
  have w12: "writes (set (exprIds body)) (set (recordedAgain body)) st1 st2"
    using "7.IH"(2) [OF opdef body] "7.prems"(2) disj by auto
  have w02: "writes (set (opDefIds opdef) \<union> set (exprIds body))
               (set (recordedAgainOpDef opdef) \<union> set (recordedAgain body)) ?st0 st2"
    by (rule writes_trans [OF w01 w12])
  have "i \<notin> known ?st0" "i \<notin> set (opDefIds opdef) \<union> set (exprIds body)"
    using "7.prems"(2,3) by auto
  then have k2: "i \<notin> known st2"
    using writes_known [OF w02] by simp
  have w23: "writes {i} {} st2 st'"
    using exit k2 by (rule exitLet_writes)
  have "writes ({} \<union> (set (opDefIds opdef) \<union> set (exprIds body)) \<union> {i})
          ({} \<union> (set (recordedAgainOpDef opdef) \<union> set (recordedAgain body)) \<union> {}) st st'"
    by (rule writes_trans [OF writes_trans [OF enterExpr_writes w02] w23])
  then show ?case
    by (rule writes_mono) auto
next
  case (8 d i n body st)
  obtain st1 where body: "walkExpression d body st = Inr st1"
    and exit: "exitOpDef d i body st1 = Inr st'"
    using "8.prems"(1) by (cases "walkExpression d body st") auto
  have w01: "writes (set (exprIds body)) (set (recordedAgain body)) st st1"
    using "8.IH" [OF body] "8.prems"(2,3) by auto
  have "i \<notin> known st" "i \<notin> set (exprIds body)"
    using "8.prems"(2,3) by auto
  then have k1: "i \<notin> known st1"
    using writes_known [OF w01] by simp
  have w12: "writes {i} {} st1 st'"
    using exit k1 by (rule exitOpDef_writes)
  have "writes (set (exprIds body) \<union> {i}) (set (recordedAgain body) \<union> {}) st st'"
    by (rule writes_trans [OF w01 w12])
  then show ?case
    by (rule writes_mono) auto
next
  case (9 d st)
  then show ?case by simp
next
  case (10 d e es st)
  obtain st1 where first: "walkExpression d e st = Inr st1"
    and rest: "walkExpressions d es st1 = Inr st'"
    using "10.prems"(1) by (cases "walkExpression d e st") auto
  have w01: "writes (set (exprIds e)) (set (recordedAgain e)) st st1"
    using "10.IH"(1) [OF first] "10.prems"(2,3) by auto
  have "known st1 \<subseteq> known st \<union> set (exprIds e)"
    using w01 by (simp add: writes_def)
  then have disj: "set (exprsIds es) \<inter> known st1 = {}"
    using "10.prems"(2,3) by auto
  have w12: "writes (set (exprsIds es)) (set (recordedAgainList es)) st1 st'"
    using "10.IH"(2) [OF first rest] "10.prems"(2) disj by auto
  have "writes (set (exprIds e) \<union> set (exprsIds es))
          (set (recordedAgain e) \<union> set (recordedAgainList es)) st st'"
    by (rule writes_trans [OF w01 w12])
  then show ?case by simp
qed

lemma walkDefinition_writes:
  assumes "walkDefinition d def st = Inr st'"
    and "distinct (defIds def)" and "set (defIds def) \<inter> known st = {}"
  shows "writes (set (defIds def)) (set (recordedAgainDef def)) st st'"
proof (cases "def")
  case (DefOp opdef)
  then show ?thesis
    using assms walk_writes(2) [of d opdef st st'] by simp
next
  case (DefConst i n ty)
  then show ?thesis
    using assms exitConst_writes [of i st d ty] by auto
next
  case (DefVar i n)
  then show ?thesis
    using assms exitVar_writes [of i st d n] by auto
qed

lemma walkDefinitions_writes:
  "walkDefinitions d defs st = Inr st' \<Longrightarrow> distinct (moduleIds defs)
     \<Longrightarrow> set (moduleIds defs) \<inter> known st = {}
     \<Longrightarrow> writes (set (moduleIds defs)) (set (moduleRecordedAgain defs)) st st'"
proof (induction defs arbitrary: st)
  case Nil
  then show ?case by (simp add: moduleIds_def moduleRecordedAgain_def)
next
  case (Cons def defs)
  obtain st1 where first: "walkDefinition d def st = Inr st1"
    and rest: "walkDefinitions d defs st1 = Inr st'"
    using Cons.prems(1) by (cases "walkDefinition d def st") auto
  have dist: "distinct (defIds def)" "distinct (moduleIds defs)"
    "set (defIds def) \<inter> set (moduleIds defs) = {}"
    using Cons.prems(2) by (auto simp: moduleIds_def)
  have disj: "set (defIds def) \<inter> known st = {}" "set (moduleIds defs) \<inter> known st = {}"
    using Cons.prems(3) by (auto simp: moduleIds_def)
  have w01: "writes (set (defIds def)) (set (recordedAgainDef def)) st st1"
    using first dist(1) disj(1) by (rule walkDefinition_writes)
  have "known st1 \<subseteq> known st \<union> set (defIds def)"
    using w01 by (simp add: writes_def)
  then have "set (moduleIds defs) \<inter> known st1 = {}"
    using dist(3) disj(2) by (simp add: disjoint_iff) blast
  then have w12: "writes (set (moduleIds defs)) (set (moduleRecordedAgain defs)) st1 st'"
    using Cons.IH [OF rest dist(2)] by simp
  have "writes (set (defIds def) \<union> set (moduleIds defs))
          (set (recordedAgainDef def) \<union> set (moduleRecordedAgain defs)) st st'"
    by (rule writes_trans [OF w01 w12])
  then show ?case
    by (simp add: moduleIds_def moduleRecordedAgain_def)
qed

text \<open>
  C1, as amended. An inferrer is built, with or without effects given to the constructor,
  and infers the effects of a list of definitions whose nodes (parameters included) have
  pairwise distinct identities, none of them among the given effects. When the run
  returns its two maps, an identity with an entry in both is one that the walker records
  more than once: the body of a lambda, a parameter of a lambda, or an argument of an
  application. Every other identity is a key of at most one of the two maps.
\<close>

theorem maps_disjoint_but_recorded_again:
  assumes "inferEffects d defs (EffectInferrer effs) = Inr (errs, effs')"
    and "distinct (moduleIds defs)"
    and "set (moduleIds defs) \<inter> Mapping.keys effs = {}"
  shows "Mapping.keys errs \<inter> Mapping.keys effs' \<subseteq> set (moduleRecordedAgain defs)"
proof -
  obtain st' where run: "walkDefinitions d defs (EffectInferrer effs) = Inr st'"
    and maps: "errs = errors st'" "effs' = effects st'"
    using assms(1)
    by (cases "walkDefinitions d defs (EffectInferrer effs)") (auto simp: inferEffects_def)
  have start: "known (EffectInferrer effs) = Mapping.keys effs" "inBoth (EffectInferrer effs) = {}"
    by (simp_all add: known_def inBoth_def EffectInferrer_def)
  have "writes (set (moduleIds defs)) (set (moduleRecordedAgain defs)) (EffectInferrer effs) st'"
    using run assms(2,3) start(1) by (simp add: walkDefinitions_writes)
  then have "inBoth st' \<subseteq> set (moduleRecordedAgain defs)"
    using start(2) by (simp add: writes_def)
  then show ?thesis
    using maps by (auto simp: inBoth_def)
qed

theorem maps_disjoint_but_recorded_again_witness:
  "completed (inferEffects operatorResultEnv operatorResultModule (EffectInferrer Mapping.empty))
   \<and> distinct (moduleIds operatorResultModule)
   \<and> set (moduleIds operatorResultModule) \<inter> Mapping.keys (Mapping.empty :: (int, EffectScheme) mapping) = {}
   \<and> moduleRecordedAgain operatorResultModule = [1, 2, 5, 6]
   \<and> inBothMaps (inferEffects operatorResultEnv operatorResultModule (EffectInferrer Mapping.empty))
        \<subseteq> set (moduleRecordedAgain operatorResultModule)"
proof -
  have fin: "completed (inferEffects operatorResultEnv operatorResultModule (EffectInferrer Mapping.empty))"
    by code_simp
  then obtain errs effs where run:
    "inferEffects operatorResultEnv operatorResultModule (EffectInferrer Mapping.empty) = Inr (errs, effs)"
    by (metis completedE surj_pair)
  have h2: "distinct (moduleIds operatorResultModule)"
    by code_simp
  have h3: "set (moduleIds operatorResultModule) \<inter> Mapping.keys (Mapping.empty :: (int, EffectScheme) mapping) = {}"
    by simp
  have again: "moduleRecordedAgain operatorResultModule = [1, 2, 5, 6]"
    by code_simp
  show ?thesis
    using fin h2 h3 again run maps_disjoint_but_recorded_again [OF run h2 h3]
    by (simp add: inBothMaps_def)
qed

text \<open>
  C1 as stated fails: in the module \<^verbatim>\<open>def f(p) = p\<close>, \<^verbatim>\<open>def g(q) = f\<close> the body of \<open>g\<close> (the
  name \<open>f\<close>, identity 6) first gets the effect of \<open>f\<close> in the success map, and then, at the
  exit of the lambda, the error of an operator-valued result in the error map. The run
  returns both maps with the key 6.
\<close>

theorem maps_disjoint_counterexample:
  "completed (inferEffects operatorResultEnv operatorResultModule (EffectInferrer Mapping.empty))
   \<and> errorAt (inferEffects operatorResultEnv operatorResultModule (EffectInferrer Mapping.empty)) 6
       = Some (ErrorTree None ''Inferring effect for f''
                 [ErrorTree (Some ''Result cannot be an opperator'') ''Inferring effect for f'' []])
   \<and> effectAt (inferEffects operatorResultEnv operatorResultModule (EffectInferrer Mapping.empty)) 6
       = Some \<lparr>effect = ArrowEffect [VariableEffect ''e0''] (VariableEffect ''e0''),
               effectVariables = [], entityVariables = []\<rparr>
   \<and> 6 \<in> inBothMaps (inferEffects operatorResultEnv operatorResultModule (EffectInferrer Mapping.empty))"
proof -
  have "completed (inferEffects operatorResultEnv operatorResultModule (EffectInferrer Mapping.empty))"
    by code_simp
  moreover have
    "errorAt (inferEffects operatorResultEnv operatorResultModule (EffectInferrer Mapping.empty)) 6
       = Some (ErrorTree None ''Inferring effect for f''
                 [ErrorTree (Some ''Result cannot be an opperator'') ''Inferring effect for f'' []])"
    by code_simp
  moreover have
    "effectAt (inferEffects operatorResultEnv operatorResultModule (EffectInferrer Mapping.empty)) 6
       = Some \<lparr>effect = ArrowEffect [VariableEffect ''e0''] (VariableEffect ''e0''),
               effectVariables = [], entityVariables = []\<rparr>"
    by code_simp
  moreover have
    "6 \<in> inBothMaps (inferEffects operatorResultEnv operatorResultModule (EffectInferrer Mapping.empty))"
    by code_simp
  ultimately show ?thesis by simp
qed

end
